theory Spec2Isabelle
  imports Main "HOL-Library.Multiset" "HOL-Library.Sublist" "HOL-Library.List_Lexorder"
begin

section \<open>The persistence layer of golem (storage/db.go, storage/models.go)\<close>

text \<open>
  The program keeps its data in one SQLite file with four tables. The model is a record
  of the four tables, each a list of rows in rowid order, together with the counters
  SQLite keeps for \<^verbatim>\<open>AUTOINCREMENT\<close> keys. Every method of \<^verbatim>\<open>*DB\<close> becomes a function that
  takes the store and returns the outcome together with the store after the call.

  Conventions of the model:
  \<^item> A Go \<^verbatim>\<open>string\<close> is a byte sequence, here a \<open>string\<close> (a list of 8-bit characters).
  \<^item> A \<^verbatim>\<open>time.Time\<close> is an instant on a linear time line, here an \<open>int\<close>; the order of
    two instants is the order \<^verbatim>\<open>ORDER BY timestamp\<close> sees.
  \<^item> A Go \<^verbatim>\<open>int\<close> and an SQLite \<^verbatim>\<open>INTEGER\<close> are an \<open>int\<close>; none of the functions below
    does arithmetic on them that could overflow, apart from the key counters.
  \<^item> A \<^verbatim>\<open>*int\<close> that may be nil, and a nullable column, is an \<open>int option\<close>.
  \<^item> A Go slice is a \<open>list option\<close>: \<open>None\<close> is the nil slice, which \<^verbatim>\<open>append\<close> turns
    into a slice of one element.
  \<^item> A failure the driver reports for a call (disk, lock, closed connection) is an
    argument \<open>io\<close> of the call: \<open>None\<close> when the driver executes the statement,
    \<open>Some e\<close> when it returns the error \<open>e\<close> instead.
  \<^item> The text columns are written by this program from Go strings only, so they are never
    NULL; the one column the program leaves NULL is \<^verbatim>\<open>collection_id\<close>.
\<close>

type_synonym time = int

type_synonym 'a slice = "'a list option"

datatype error =
    DriverError string
  | ForeignKeyConstraintFailed
  | FileError string
  | JSONSyntaxError
  | JSONTypeError
  | NilPointerDereference
  | SavedRequestNotFound
  | InvalidMethod string
  | InvalidURL string
  | TransportError string
  | BodyReadError string

record Preference =
  Key :: string
  Value :: string
  UpdatedAt :: time

record Collection =
  ID :: int
  Name :: string
  Description :: string
  CreatedAt :: time

record RequestHistory =
  ID :: int
  URL :: string
  Method :: string
  Headers :: string
  Body :: string
  Timestamp :: time
  ResponseStatus :: string
  ResponseBody :: string
  ResponseHeaders :: string
  ResponseTimeMs :: int
  ResponseSize :: int
  IsFavorite :: bool
  CollectionID :: "int option"

record SavedRequest =
  ID :: int
  Name :: string
  URL :: string
  Method :: string
  Headers :: string
  Body :: string
  CollectionID :: "int option"
  CreatedAt :: time

text \<open>
  The store: the rows of the four tables of \<^verbatim>\<open>migrate\<close>, and for each table with an
  \<^verbatim>\<open>INTEGER PRIMARY KEY AUTOINCREMENT\<close> the largest key it ever issued
  (\<^verbatim>\<open>sqlite_sequence\<close>). The program never supplies a key itself, so the next key of a
  table is its counter plus one.
\<close>

record DB =
  preferences :: "Preference list"
  collections :: "Collection list"
  request_history :: "RequestHistory list"
  saved_requests :: "SavedRequest list"
  seq_collections :: int
  seq_request_history :: int
  seq_saved_requests :: int

definition empty_db :: DB where
  "empty_db = \<lparr>preferences = [], collections = [], request_history = [],
     saved_requests = [], seq_collections = 0, seq_request_history = 0,
     seq_saved_requests = 0\<rparr>"

text \<open>
  \<^verbatim>\<open>initDB\<close> opens the connection with \<^verbatim>\<open>sql.Open("sqlite", dbPath)\<close>: the data source name
  is the bare path, without a \<^verbatim>\<open>_pragma\<close> parameter, and no function of the package
  executes \<^verbatim>\<open>PRAGMA foreign_keys = ON\<close>. SQLite enforces the foreign keys a schema
  declares only on a connection that switched the pragma on; its default is off. The
  statements whose effect depends on the pragma take it as their first argument, and
  the methods of \<^verbatim>\<open>*DB\<close> pass the value of the connection \<^verbatim>\<open>initDB\<close> made.
\<close>

definition initDB_foreign_keys :: bool where
  "initDB_foreign_keys = False"

subsection \<open>Slices and the clauses of the queries\<close>

definition append_slice :: "'a slice \<Rightarrow> 'a \<Rightarrow> 'a slice" where
  "append_slice s x = (case s of None \<Rightarrow> Some [x] | Some xs \<Rightarrow> Some (xs @ [x]))"

text \<open>
  The scan loop of the query methods: \<^verbatim>\<open>var history []*RequestHistory\<close> starts as the nil
  slice and every row of the result is appended.
\<close>

definition scan_rows :: "'a list \<Rightarrow> 'a slice" where
  "scan_rows rows = foldl append_slice None rows"

definition slice_elems :: "'a slice \<Rightarrow> 'a list" where
  "slice_elems s = (case s of None \<Rightarrow> [] | Some xs \<Rightarrow> xs)"

text \<open>
  \<^verbatim>\<open>LIMIT ? OFFSET ?\<close>: a negative limit means no limit, a negative offset means none.
\<close>

definition sql_limit :: "int \<Rightarrow> int \<Rightarrow> 'a list \<Rightarrow> 'a list" where
  "sql_limit limit offset rows =
     (let rest = (if offset \<le> 0 then rows else drop (nat offset) rows)
      in if limit < 0 then rest else take (nat limit) rest)"

text \<open>
  \<^verbatim>\<open>ORDER BY timestamp DESC\<close>. SQLite leaves the order of rows with equal timestamps
  open; the model keeps them in rowid order (a stable sort). No theorem below depends
  on the order among equal timestamps.
\<close>

definition order_by_timestamp_desc :: "RequestHistory list \<Rightarrow> RequestHistory list" where
  "order_by_timestamp_desc rows = sort_key (\<lambda>r. - Timestamp r) rows"

text \<open>\<^verbatim>\<open>ORDER BY name\<close> on a text column: bytewise comparison, a prefix first.\<close>

definition order_by_name :: "SavedRequest list \<Rightarrow> SavedRequest list" where
  "order_by_name rows = sort_key (\<lambda>r. map (of_char :: char \<Rightarrow> nat) (SavedRequest.Name r)) rows"

subsection \<open>Preferences\<close>

text \<open>
  \<^verbatim>\<open>INSERT ... ON CONFLICT(key) DO UPDATE SET value = excluded.value,
  updated_at = CURRENT_TIMESTAMP\<close>: the row of the key is rewritten in place when there
  is one, a new row is appended otherwise.
\<close>

fun upsert_preference :: "Preference \<Rightarrow> Preference list \<Rightarrow> Preference list" where
  "upsert_preference p [] = [p]"
| "upsert_preference p (q # qs) =
     (if Preference.Key q = Preference.Key p
      then q\<lparr>Preference.Value := Preference.Value p, UpdatedAt := UpdatedAt p\<rparr> # qs
      else q # upsert_preference p qs)"

text \<open>\<open>now\<close> is what \<^verbatim>\<open>CURRENT_TIMESTAMP\<close> evaluates to when the statement runs.\<close>

definition SetPreference ::
  "error option \<Rightarrow> time \<Rightarrow> string \<Rightarrow> string \<Rightarrow> DB \<Rightarrow> error option \<times> DB" where
  "SetPreference io now key val db =
     (case io of
        Some e \<Rightarrow> (Some e, db)
      | None \<Rightarrow>
          (None, db\<lparr>preferences :=
             upsert_preference \<lparr>Preference.Key = key, Value = val, UpdatedAt = now\<rparr>
               (preferences db)\<rparr>))"

text \<open>
  \<^verbatim>\<open>GetPreference\<close> returns \<^verbatim>\<open>(nil, nil)\<close> when no row has the key, the row when one has,
  and the pointer to the zero \<^verbatim>\<open>Preference\<close> together with the error on any other failure.
\<close>

definition zero_Preference :: Preference where
  "zero_Preference = \<lparr>Preference.Key = [], Value = [], UpdatedAt = 0\<rparr>"

definition GetPreference ::
  "error option \<Rightarrow> string \<Rightarrow> DB \<Rightarrow> Preference option \<times> error option" where
  "GetPreference io key db =
     (case io of
        Some e \<Rightarrow> (Some zero_Preference, Some e)
      | None \<Rightarrow> (find (\<lambda>p. Preference.Key p = key) (preferences db), None))"

text \<open>No stored preference carries a timestamp later than the clock reading \<open>now\<close>.\<close>

definition preferences_not_after :: "time \<Rightarrow> DB \<Rightarrow> bool" where
  "preferences_not_after now db = list_all (\<lambda>p. UpdatedAt p \<le> now) (preferences db)"

subsection \<open>Request history\<close>

text \<open>
  The \<^verbatim>\<open>INSERT INTO request_history\<close> of \<^verbatim>\<open>SaveRequestHistory\<close> and of \<^verbatim>\<open>ImportHistory\<close>:
  the row gets the next key, whatever \<^verbatim>\<open>ID\<close> the Go value holds. With foreign keys
  enforced the statement fails when the row names a collection that does not exist.
\<close>

definition collection_exists :: "int \<Rightarrow> DB \<Rightarrow> bool" where
  "collection_exists c db = (c \<in> set (map Collection.ID (collections db)))"

definition insert_request_history ::
  "bool \<Rightarrow> error option \<Rightarrow> RequestHistory \<Rightarrow> DB \<Rightarrow> error + (int \<times> DB)" where
  "insert_request_history fk io req db =
     (case io of
        Some e \<Rightarrow> Inl e
      | None \<Rightarrow>
          (if fk \<and> (case RequestHistory.CollectionID req of
                       None \<Rightarrow> False | Some c \<Rightarrow> \<not> collection_exists c db)
           then Inl ForeignKeyConstraintFailed
           else
             (let k = seq_request_history db + 1
              in Inr (k, db\<lparr>request_history :=
                             request_history db @ [req\<lparr>RequestHistory.ID := k\<rparr>],
                           seq_request_history := k\<rparr>))))"

text \<open>
  \<^verbatim>\<open>SaveRequestHistory\<close> stores the key in \<^verbatim>\<open>req.ID\<close>; the model returns the updated
  request beside the store. (\<^verbatim>\<open>LastInsertId\<close> does not fail on SQLite, so its error
  branch is not a case of the model.)
\<close>

definition SaveRequestHistory ::
  "error option \<Rightarrow> RequestHistory \<Rightarrow> DB \<Rightarrow> error option \<times> RequestHistory \<times> DB" where
  "SaveRequestHistory io req db =
     (case insert_request_history initDB_foreign_keys io req db of
        Inl e \<Rightarrow> (Some e, req, db)
      | Inr (k, db') \<Rightarrow> (None, req\<lparr>RequestHistory.ID := k\<rparr>, db'))"

definition GetRequestHistory ::
  "error option \<Rightarrow> int \<Rightarrow> int \<Rightarrow> DB \<Rightarrow> error + RequestHistory slice" where
  "GetRequestHistory io limit offset db =
     (case io of
        Some e \<Rightarrow> Inl e
      | None \<Rightarrow>
          Inr (scan_rows (sql_limit limit offset
                 (order_by_timestamp_desc (request_history db)))))"

definition ClearRequestHistory :: "error option \<Rightarrow> DB \<Rightarrow> error option \<times> DB" where
  "ClearRequestHistory io db =
     (case io of
        Some e \<Rightarrow> (Some e, db)
      | None \<Rightarrow> (None, db\<lparr>request_history := []\<rparr>))"

subsection \<open>Collections and saved requests\<close>

definition CreateCollection ::
  "error option \<Rightarrow> time \<Rightarrow> time \<Rightarrow> string \<Rightarrow> string \<Rightarrow> DB \<Rightarrow> error + (Collection \<times> DB)" where
  "CreateCollection io now go_now name description db =
     (case io of
        Some e \<Rightarrow> Inl e
      | None \<Rightarrow>
          (let k = seq_collections db + 1
           in Inr (\<lparr>Collection.ID = k, Name = name, Description = description,
                     CreatedAt = go_now\<rparr>,
                   db\<lparr>collections := collections db @
                        [\<lparr>Collection.ID = k, Name = name, Description = description,
                          CreatedAt = now\<rparr>],
                      seq_collections := k\<rparr>)))"

text \<open>
  \<^verbatim>\<open>DELETE FROM collections WHERE id = ?\<close>. The schema declares
  \<^verbatim>\<open>request_history.collection_id ... ON DELETE SET NULL\<close> and
  \<^verbatim>\<open>saved_requests.collection_id ... ON DELETE CASCADE\<close>. SQLite runs these actions for
  a deleted parent row only on a connection with foreign keys enforced.
\<close>

definition delete_collection :: "bool \<Rightarrow> int \<Rightarrow> DB \<Rightarrow> DB" where
  "delete_collection fk c db =
     (let db' = db\<lparr>collections := filter (\<lambda>r. Collection.ID r \<noteq> c) (collections db)\<rparr>
      in if fk \<and> collection_exists c db
         then db'\<lparr>request_history :=
                    map (\<lambda>r. if RequestHistory.CollectionID r = Some c
                              then r\<lparr>RequestHistory.CollectionID := None\<rparr> else r)
                      (request_history db),
                  saved_requests :=
                    filter (\<lambda>r. SavedRequest.CollectionID r \<noteq> Some c) (saved_requests db)\<rparr>
         else db')"

definition DeleteCollection :: "error option \<Rightarrow> int \<Rightarrow> DB \<Rightarrow> error option \<times> DB" where
  "DeleteCollection io c db =
     (case io of
        Some e \<Rightarrow> (Some e, db)
      | None \<Rightarrow> (None, delete_collection initDB_foreign_keys c db))"

definition SaveRequest ::
  "error option \<Rightarrow> time \<Rightarrow> SavedRequest \<Rightarrow> DB \<Rightarrow> error option \<times> SavedRequest \<times> DB" where
  "SaveRequest io now req db =
     (case io of
        Some e \<Rightarrow> (Some e, req, db)
      | None \<Rightarrow>
          (if initDB_foreign_keys \<and>
              (case SavedRequest.CollectionID req of
                 None \<Rightarrow> False | Some c \<Rightarrow> \<not> collection_exists c db)
           then (Some ForeignKeyConstraintFailed, req, db)
           else
             (let k = seq_saved_requests db + 1
              in (None, req\<lparr>SavedRequest.ID := k\<rparr>,
                  db\<lparr>saved_requests :=
                       saved_requests db @
                         [req\<lparr>SavedRequest.ID := k, SavedRequest.CreatedAt := now\<rparr>],
                     seq_saved_requests := k\<rparr>))))"

definition GetSavedRequests ::
  "error option \<Rightarrow> int option \<Rightarrow> DB \<Rightarrow> error + SavedRequest slice" where
  "GetSavedRequests io collectionID db =
     (case io of
        Some e \<Rightarrow> Inl e
      | None \<Rightarrow>
          Inr (scan_rows (order_by_name
                 (filter (\<lambda>r. SavedRequest.CollectionID r = collectionID)
                    (saved_requests db)))))"

subsection \<open>Search: the LIKE operator\<close>

text \<open>
  SQLite's \<^verbatim>\<open>LIKE\<close> with its default settings (no \<^verbatim>\<open>ESCAPE\<close> clause,
  \<^verbatim>\<open>case_sensitive_like\<close> off): \<^verbatim>\<open>%\<close> in the pattern matches any run of characters,
  \<^verbatim>\<open>_\<close> matches exactly one character, and any other character matches itself or,
  for the letters of ASCII, its other case. A character of the text is one byte, or a
  byte from \<open>0xC0\<close> up together with the continuation bytes behind it. Literal
  characters are compared bytewise, which is SQLite's comparison on well-formed UTF-8;
  on text that is not well-formed UTF-8 SQLite compares the code points it decodes, and
  its result can differ.
\<close>

definition ascii_lower :: "char \<Rightarrow> char" where
  "ascii_lower c =
     (case map_of (zip ''ABCDEFGHIJKLMNOPQRSTUVWXYZ'' ''abcdefghijklmnopqrstuvwxyz'') c of
        None \<Rightarrow> c
      | Some l \<Rightarrow> l)"















section \<open>Export and import (storage/models.go)\<close>

subsection \<open>Strings in JSON\<close>

text \<open>
  \<^verbatim>\<open>encoding/json\<close> writes a Go string as a JSON string "coerced to valid UTF-8, replacing
  invalid bytes with the Unicode replacement rune". \<open>rune_size\<close> is the number of bytes
  \<^verbatim>\<open>utf8.DecodeRuneInString\<close> accepts at the head of a byte sequence (its tables
  \<^verbatim>\<open>first\<close> and \<^verbatim>\<open>acceptRanges\<close>), and \<open>0\<close> where it returns \<^verbatim>\<open>(RuneError, 1)\<close>.
\<close>

definition in_range :: "nat \<Rightarrow> nat \<Rightarrow> char \<Rightarrow> bool" where
  "in_range lo hi c = (lo \<le> (of_char c :: nat) \<and> (of_char c :: nat) \<le> hi)"

fun rune_size :: "string \<Rightarrow> nat" where
  "rune_size [] = 0"
| "rune_size (b0 # rest) =
     (if in_range 0 127 b0 then 1
      else if in_range 194 223 b0 then
        (case rest of
           b1 # _ \<Rightarrow> if in_range 128 191 b1 then 2 else 0
         | _ \<Rightarrow> 0)
      else if in_range 224 239 b0 then
        (case rest of
           b1 # b2 # _ \<Rightarrow>
             if in_range (if in_range 224 224 b0 then 160 else 128)
                         (if in_range 237 237 b0 then 159 else 191) b1
                \<and> in_range 128 191 b2
             then 3 else 0
         | _ \<Rightarrow> 0)
      else if in_range 240 244 b0 then
        (case rest of
           b1 # b2 # b3 # _ \<Rightarrow>
             if in_range (if in_range 240 240 b0 then 144 else 128)
                         (if in_range 244 244 b0 then 143 else 191) b1
                \<and> in_range 128 191 b2 \<and> in_range 128 191 b3
             then 4 else 0
         | _ \<Rightarrow> 0)
      else 0)"

text \<open>The UTF-8 encoding of U+FFFD, the replacement rune.\<close>

definition replacement_rune :: string where
  "replacement_rune = [CHR 0xEF, CHR 0xBF, CHR 0xBD]"

text \<open>
  The string a JSON reader gets back from what the encoder wrote for \<open>s\<close>: the encoder
  copies every well-formed character (escaped or not) and writes the escape of U+FFFD for
  every other byte.
\<close>

function to_valid_utf8 :: "string \<Rightarrow> string" where
  "to_valid_utf8 [] = []"
| "to_valid_utf8 (c # s) =
     (let n = rune_size (c # s)
      in if n = 0 then replacement_rune @ to_valid_utf8 s
         else take n (c # s) @ to_valid_utf8 (drop n (c # s)))"
  by pat_completeness auto
termination
  by (relation "measure length") auto

declare to_valid_utf8.simps [simp del]

definition valid_utf8 :: "string \<Rightarrow> bool" where
  "valid_utf8 s = (to_valid_utf8 s = s)"

subsection \<open>JSON documents\<close>

text \<open>
  A JSON document, as \<^verbatim>\<open>encoding/json\<close> reads and writes it. \<open>JInteger\<close> is a number
  written as an integer literal, \<open>JOtherNumber\<close> any other number. \<open>JString\<close> holds the
  string a literal denotes. \<open>JTime t\<close> is the JSON string that holds the RFC 3339 text
  of the instant \<open>t\<close>, the form \<^verbatim>\<open>time.Time\<close> marshals to and parses from, where the
  program writes or expects a \<^verbatim>\<open>time.Time\<close>; every other string is a \<open>JString\<close>, also
  one in the place of a timestamp that does not parse as one. The members of an object
  are kept in the order written.

  A file is the document its bytes denote, or \<open>NotJSON\<close> when they denote none. The
  layout that \<^verbatim>\<open>json.MarshalIndent\<close> gives the text (two spaces a level) does not
  change the document and is not part of the model.
\<close>

datatype json =
    JNull
  | JBool bool
  | JInteger int
  | JOtherNumber
  | JString string
  | JTime time
  | JArray "json list"
  | JObject "(string \<times> json) list"

datatype file_content = JSONText json | NotJSON

type_synonym filesystem = "string \<Rightarrow> file_content option"





definition readFile :: "string \<Rightarrow> filesystem \<Rightarrow> error + file_content" where
  "readFile filepath fs =
     (case fs filepath of
        None \<Rightarrow> Inl (FileError filepath)
      | Some data \<Rightarrow> Inr data)"


subsection \<open>Reading a document into history rows\<close>

text \<open>
  \<^verbatim>\<open>json.Unmarshal(data, &history)\<close> with \<^verbatim>\<open>history\<close> a \<^verbatim>\<open>[]*RequestHistory\<close>. Member
  names are matched to the \<^verbatim>\<open>json\<close> tags of the struct without regard to (ASCII) case,
  unknown members are skipped, \<^verbatim>\<open>null\<close> leaves a field as it is and makes a pointer nil,
  a later member of the same name overwrites an earlier one, and a value that does not
  fit its field makes the call return an error. Each element of the array is read into
  a new zero \<^verbatim>\<open>RequestHistory\<close>; the element \<^verbatim>\<open>null\<close> gives a nil pointer.
\<close>

definition zero_time :: time where
  "zero_time = - 62135596800000000000"

definition zero_RequestHistory :: RequestHistory where
  "zero_RequestHistory =
     \<lparr>RequestHistory.ID = 0, URL = [], Method = [], Headers = [], Body = [],
      Timestamp = zero_time, ResponseStatus = [], ResponseBody = [],
      ResponseHeaders = [], ResponseTimeMs = 0, ResponseSize = 0, IsFavorite = False,
      CollectionID = None\<rparr>"

definition is_int64 :: "int \<Rightarrow> bool" where
  "is_int64 n = (- (2 ^ 63) \<le> n \<and> n < 2 ^ 63)"

definition unmarshal_int :: "json \<Rightarrow> error + int" where
  "unmarshal_int v =
     (case v of
        JInteger n \<Rightarrow> if is_int64 n then Inr n else Inl JSONTypeError
      | _ \<Rightarrow> Inl JSONTypeError)"

definition unmarshal_string :: "json \<Rightarrow> error + string" where
  "unmarshal_string v =
     (case v of
        JString s \<Rightarrow> Inr (to_valid_utf8 s)
      | _ \<Rightarrow> Inl JSONTypeError)"

definition unmarshal_bool :: "json \<Rightarrow> error + bool" where
  "unmarshal_bool v = (case v of JBool b \<Rightarrow> Inr b | _ \<Rightarrow> Inl JSONTypeError)"

definition unmarshal_time :: "json \<Rightarrow> error + time" where
  "unmarshal_time v = (case v of JTime t \<Rightarrow> Inr t | _ \<Rightarrow> Inl JSONTypeError)"

definition with_field :: "error + 'a \<Rightarrow> ('a \<Rightarrow> RequestHistory) \<Rightarrow> error + RequestHistory" where
  "with_field x f = (case x of Inl e \<Rightarrow> Inl e | Inr a \<Rightarrow> Inr (f a))"

definition unmarshal_member :: "string \<times> json \<Rightarrow> RequestHistory \<Rightarrow> error + RequestHistory" where
  "unmarshal_member m r =
     (let name = map ascii_lower (fst m); v = snd m
      in if v = JNull then
           (if name = ''collection_id'' then Inr (r\<lparr>RequestHistory.CollectionID := None\<rparr>)
            else Inr r)
         else if name = ''id'' then
           with_field (unmarshal_int v) (\<lambda>n. r\<lparr>RequestHistory.ID := n\<rparr>)
         else if name = ''url'' then
           with_field (unmarshal_string v) (\<lambda>s. r\<lparr>RequestHistory.URL := s\<rparr>)
         else if name = ''method'' then
           with_field (unmarshal_string v) (\<lambda>s. r\<lparr>RequestHistory.Method := s\<rparr>)
         else if name = ''headers'' then
           with_field (unmarshal_string v) (\<lambda>s. r\<lparr>RequestHistory.Headers := s\<rparr>)
         else if name = ''body'' then
           with_field (unmarshal_string v) (\<lambda>s. r\<lparr>RequestHistory.Body := s\<rparr>)
         else if name = ''timestamp'' then
           with_field (unmarshal_time v) (\<lambda>t. r\<lparr>Timestamp := t\<rparr>)
         else if name = ''response_status'' then
           with_field (unmarshal_string v) (\<lambda>s. r\<lparr>ResponseStatus := s\<rparr>)
         else if name = ''response_body'' then
           with_field (unmarshal_string v) (\<lambda>s. r\<lparr>ResponseBody := s\<rparr>)
         else if name = ''response_headers'' then
           with_field (unmarshal_string v) (\<lambda>s. r\<lparr>ResponseHeaders := s\<rparr>)
         else if name = ''response_time_ms'' then
           with_field (unmarshal_int v) (\<lambda>n. r\<lparr>ResponseTimeMs := n\<rparr>)
         else if name = ''response_size'' then
           with_field (unmarshal_int v) (\<lambda>n. r\<lparr>ResponseSize := n\<rparr>)
         else if name = ''is_favorite'' then
           with_field (unmarshal_bool v) (\<lambda>b. r\<lparr>IsFavorite := b\<rparr>)
         else if name = ''collection_id'' then
           with_field (unmarshal_int v) (\<lambda>n. r\<lparr>RequestHistory.CollectionID := Some n\<rparr>)
         else Inr r)"

fun unmarshal_members :: "(string \<times> json) list \<Rightarrow> RequestHistory \<Rightarrow> error + RequestHistory" where
  "unmarshal_members [] r = Inr r"
| "unmarshal_members (m # ms) r =
     (case unmarshal_member m r of
        Inl e \<Rightarrow> Inl e
      | Inr r' \<Rightarrow> unmarshal_members ms r')"

definition unmarshal_element :: "json \<Rightarrow> error + RequestHistory option" where
  "unmarshal_element v =
     (case v of
        JNull \<Rightarrow> Inr None
      | JObject ms \<Rightarrow>
          (case unmarshal_members ms zero_RequestHistory of
             Inl e \<Rightarrow> Inl e
           | Inr r \<Rightarrow> Inr (Some r))
      | _ \<Rightarrow> Inl JSONTypeError)"

fun unmarshal_elements :: "json list \<Rightarrow> error + RequestHistory option list" where
  "unmarshal_elements [] = Inr []"
| "unmarshal_elements (v # vs) =
     (case unmarshal_element v of
        Inl e \<Rightarrow> Inl e
      | Inr x \<Rightarrow>
          (case unmarshal_elements vs of
             Inl e \<Rightarrow> Inl e
           | Inr xs \<Rightarrow> Inr (x # xs)))"

definition Unmarshal :: "file_content \<Rightarrow> error + RequestHistory option list" where
  "Unmarshal data =
     (case data of
        NotJSON \<Rightarrow> Inl JSONSyntaxError
      | JSONText JNull \<Rightarrow> Inr []
      | JSONText (JArray vs) \<Rightarrow> unmarshal_elements vs
      | JSONText _ \<Rightarrow> Inl JSONTypeError)"

subsection \<open>The import transaction\<close>

text \<open>
  What the driver answers during one \<^verbatim>\<open>ImportHistory\<close>: to \<^verbatim>\<open>db.Begin()\<close>, to the
  \<open>i\<close>-th \<^verbatim>\<open>tx.Exec\<close> (counted from \<open>0\<close>), and to \<^verbatim>\<open>tx.Commit()\<close>.
\<close>

record import_io =
  begin_io :: "error option"
  exec_io :: "nat \<Rightarrow> error option"
  commit_io :: "error option"

text \<open>
  How the body of \<^verbatim>\<open>ImportHistory\<close> ends: by \<^verbatim>\<open>return tx.Commit()\<close> with the
  transaction committed, by returning an error, or by the panic of \<^verbatim>\<open>req.URL\<close> on a
  nil \<^verbatim>\<open>req\<close>.
\<close>

datatype import_result = Committed | Failed error | Panicked error

text \<open>
  The loop over \<^verbatim>\<open>history\<close>, on the state \<open>tx\<close> the transaction sees. \<open>i\<close> counts the
  statements executed so far.
\<close>

fun import_loop ::
  "(nat \<Rightarrow> error option) \<Rightarrow> nat \<Rightarrow> RequestHistory option list \<Rightarrow> DB \<Rightarrow> import_result \<times> DB" where
  "import_loop xio i [] tx = (Committed, tx)"
| "import_loop xio i (None # rest) tx = (Panicked NilPointerDereference, tx)"
| "import_loop xio i (Some req # rest) tx =
     (case insert_request_history initDB_foreign_keys (xio i) req tx of
        Inl e \<Rightarrow> (Failed e, tx)
      | Inr (k, tx') \<Rightarrow> import_loop xio (Suc i) rest tx')"

text \<open>
  \<^verbatim>\<open>ImportHistory\<close>. The deferred \<^verbatim>\<open>tx.Rollback()\<close> runs on every way out of the function
  after \<^verbatim>\<open>Begin\<close>, the panic included; it undoes the transaction unless \<^verbatim>\<open>Commit\<close>
  has succeeded. A \<^verbatim>\<open>Commit\<close> that fails leaves nothing of the transaction behind.
\<close>

definition ImportHistory ::
  "import_io \<Rightarrow> string \<Rightarrow> filesystem \<Rightarrow> DB \<Rightarrow> import_result \<times> DB" where
  "ImportHistory io filepath fs db =
     (case readFile filepath fs of
        Inl e \<Rightarrow> (Failed e, db)
      | Inr data \<Rightarrow>
          (case Unmarshal data of
             Inl e \<Rightarrow> (Failed e, db)
           | Inr history \<Rightarrow>
               (case begin_io io of
                  Some e \<Rightarrow> (Failed e, db)
                | None \<Rightarrow>
                    (case import_loop (exec_io io) 0 history db of
                       (Committed, tx) \<Rightarrow>
                         (case commit_io io of
                            Some e \<Rightarrow> (Failed e, db)
                          | None \<Rightarrow> (Committed, tx))
                     | (r, tx) \<Rightarrow> (r, db)))))"

subsection \<open>Notions used to state the properties of export and import\<close>

text \<open>The rows \<open>rows\<close> with the keys SQLite issues after the key \<open>k\<close>, in order.\<close>

fun assign_ids :: "int \<Rightarrow> RequestHistory list \<Rightarrow> RequestHistory list" where
  "assign_ids k [] = []"
| "assign_ids k (r # rs) = r\<lparr>RequestHistory.ID := k + 1\<rparr> # assign_ids (k + 1) rs"

text \<open>A row without its identity: the field values that export and import carry over.\<close>

definition forget_ID :: "RequestHistory \<Rightarrow> RequestHistory" where
  "forget_ID r = r\<lparr>RequestHistory.ID := 0\<rparr>"

text \<open>
  A row as it is after its text fields went through a JSON file: every byte that is not
  part of well-formed UTF-8 is replaced by U+FFFD.
\<close>

definition coerce_row :: "RequestHistory \<Rightarrow> RequestHistory" where
  "coerce_row r =
     r\<lparr>RequestHistory.URL := to_valid_utf8 (RequestHistory.URL r),
       RequestHistory.Method := to_valid_utf8 (RequestHistory.Method r),
       RequestHistory.Headers := to_valid_utf8 (RequestHistory.Headers r),
       RequestHistory.Body := to_valid_utf8 (RequestHistory.Body r),
       ResponseStatus := to_valid_utf8 (ResponseStatus r),
       ResponseBody := to_valid_utf8 (ResponseBody r),
       ResponseHeaders := to_valid_utf8 (ResponseHeaders r)\<rparr>"

text \<open>
  A row whose text fields are well-formed UTF-8 and whose integers are 64-bit values, as
  every Go \<^verbatim>\<open>int\<close> and every SQLite \<^verbatim>\<open>INTEGER\<close> is.
\<close>

definition utf8_row :: "RequestHistory \<Rightarrow> bool" where
  "utf8_row r =
     (valid_utf8 (RequestHistory.URL r) \<and> valid_utf8 (RequestHistory.Method r)
      \<and> valid_utf8 (RequestHistory.Headers r) \<and> valid_utf8 (RequestHistory.Body r)
      \<and> valid_utf8 (ResponseStatus r) \<and> valid_utf8 (ResponseBody r)
      \<and> valid_utf8 (ResponseHeaders r))"


text \<open>The driver executes every statement of the import.\<close>

definition no_faults :: import_io where
  "no_faults = \<lparr>begin_io = None, exec_io = (\<lambda>i. None), commit_io = None\<rparr>"


section \<open>The request executor and the history recorder (main.go, ui/history.go)\<close>

record ResponseHeader =
  Key :: string
  Value :: string

text \<open>
  \<^verbatim>\<open>ResponseInfo\<close>. \<open>Headers\<close> is made by \<^verbatim>\<open>make([]ResponseHeader, 0)\<close> and is never the
  nil slice, so it is a list. \<open>ResponseTime\<close> is a \<^verbatim>\<open>time.Duration\<close>, a number of
  nanoseconds.
\<close>

record ResponseInfo =
  Body :: string
  Headers :: "ResponseHeader list"
  Status :: string
  Size :: int
  ResponseTime :: int

text \<open>
  An \<^verbatim>\<open>*http.Response\<close> as \<^verbatim>\<open>executeRequest\<close> uses it: the status line's text, the
  header fields in the order the response carried them (with the keys as \<^verbatim>\<open>net/http\<close>
  stores them), and what \<^verbatim>\<open>io.ReadAll(resp.Body)\<close> returns.
\<close>

record Response =
  Status :: string
  HeaderFields :: "(string \<times> string) list"
  Body :: "error + string"

text \<open>
  \<^verbatim>\<open>resp.Header\<close> is a \<^verbatim>\<open>map[string][]string\<close>: reading a field appends its value to the
  values of its key.
\<close>

definition add_field ::
  "(string \<Rightarrow> string list option) \<Rightarrow> string \<times> string \<Rightarrow> (string \<Rightarrow> string list option)" where
  "add_field h kv =
     h(fst kv \<mapsto> (case h (fst kv) of None \<Rightarrow> [snd kv] | Some vs \<Rightarrow> vs @ [snd kv]))"

definition Header :: "Response \<Rightarrow> (string \<Rightarrow> string list option)" where
  "Header resp = foldl add_field Map.empty (HeaderFields resp)"

text \<open>
  \<^verbatim>\<open>for key, values := range resp.Header { for _, value := range values { ... } }\<close>.
  Go does not specify the order in which \<^verbatim>\<open>range\<close> visits the keys of a map, and
  varies it from one loop to the next; \<open>ks\<close> is the order this execution of the loop
  takes. It visits every key of the map once (\<open>visits_each_key_once\<close>).
\<close>

definition range_Header :: "string list \<Rightarrow> (string \<Rightarrow> string list option) \<Rightarrow> ResponseHeader list" where
  "range_Header ks h =
     concat (map (\<lambda>k. case h k of
                         None \<Rightarrow> []
                       | Some vs \<Rightarrow> map (\<lambda>v. \<lparr>ResponseHeader.Key = k, Value = v\<rparr>) vs) ks)"

definition visits_each_key_once :: "string list \<Rightarrow> Response \<Rightarrow> bool" where
  "visits_each_key_once ks resp = (distinct ks \<and> set ks = set (map fst (HeaderFields resp)))"

text \<open>
  What the world outside the program answers during one \<^verbatim>\<open>executeRequest\<close>:
  \<open>parse_url\<close> is the verdict of \<^verbatim>\<open>url.Parse\<close> on a URL without control characters,
  \<open>do_request\<close> is \<^verbatim>\<open>client.Do\<close> for a method, a URL and the client's timeout in
  nanoseconds (name resolution, connection, redirects, the response head, or the error
  of whichever fails or times out), \<open>elapsed\<close> is \<^verbatim>\<open>time.Since(startTime)\<close>, and
  \<open>range_order\<close> is the order the \<^verbatim>\<open>range\<close> over the header map takes.
\<close>

record http_io =
  parse_url :: "string \<Rightarrow> error option"
  do_request :: "string \<Rightarrow> string \<Rightarrow> int \<Rightarrow> error + Response"
  elapsed :: int
  range_order :: "string list"

text \<open>
  \<^verbatim>\<open>http.NewRequest(method, url, nil)\<close>: an empty method stands for \<^verbatim>\<open>GET\<close>, a method
  must be a token of RFC 7230, and the URL must parse. \<^verbatim>\<open>url.Parse\<close> rejects first of
  all a URL with an ASCII control character before its fragment.
\<close>

definition is_token_char :: "char \<Rightarrow> bool" where
  "is_token_char c =
     (in_range 48 57 c \<or> in_range 65 90 c \<or> in_range 97 122 c
      \<or> c \<in> set ''!#$%&'' \<or> c = CHR 0x27 \<or> c \<in> set ''*+-.^_|~'' \<or> c = CHR 0x60)"

definition validMethod :: "string \<Rightarrow> bool" where
  "validMethod m = (m \<noteq> [] \<and> list_all is_token_char m)"

definition stringContainsCTLByte :: "string \<Rightarrow> bool" where
  "stringContainsCTLByte s = list_ex (\<lambda>c. in_range 0 31 c \<or> in_range 127 127 c) s"

definition NewRequest :: "http_io \<Rightarrow> string \<Rightarrow> string \<Rightarrow> error + (string \<times> string)" where
  "NewRequest io method url =
     (let m = (if method = [] then ''GET'' else method)
      in if \<not> validMethod m then Inl (InvalidMethod m)
         else if stringContainsCTLByte (takeWhile (\<lambda>c. c \<noteq> CHR ''#'') url)
           then Inl (InvalidURL url)
         else (case parse_url io url of
                 Some e \<Rightarrow> Inl e
               | None \<Rightarrow> Inr (m, url)))"

text \<open>\<^verbatim>\<open>Timeout: 30 * time.Second\<close>, in nanoseconds.\<close>

definition client_Timeout :: int where
  "client_Timeout = 30 * 1000000000"

definition executeRequest :: "http_io \<Rightarrow> string \<Rightarrow> string \<Rightarrow> error + ResponseInfo" where
  "executeRequest io method url =
     (case NewRequest io method url of
        Inl e \<Rightarrow> Inl e
      | Inr req \<Rightarrow>
          (case do_request io (fst req) (snd req) client_Timeout of
             Inl e \<Rightarrow> Inl e
           | Inr resp \<Rightarrow>
               (case Response.Body resp of
                  Inl e \<Rightarrow> Inl e
                | Inr body \<Rightarrow>
                    Inr \<lparr>ResponseInfo.Body = body,
                         Headers = range_Header (range_order io) (Header resp),
                         Status = Response.Status resp,
                         Size = int (length body),
                         ResponseTime = elapsed io\<rparr>)))"

text \<open>
  The failures the claim about \<^verbatim>\<open>execute\<close> calls transport-level: the exchange with the
  server fails (\<^verbatim>\<open>client.Do\<close>), or reading the body of the response does.
\<close>

definition transport_failure :: "http_io \<Rightarrow> string \<Rightarrow> string \<Rightarrow> bool" where
  "transport_failure io method url =
     (case do_request io (if method = [] then ''GET'' else method) url client_Timeout of
        Inl e \<Rightarrow> True
      | Inr resp \<Rightarrow> (case Response.Body resp of Inl e \<Rightarrow> True | Inr body \<Rightarrow> False))"

definition request_rejected :: "http_io \<Rightarrow> string \<Rightarrow> string \<Rightarrow> bool" where
  "request_rejected io method url =
     (case NewRequest io method url of Inl e \<Rightarrow> True | Inr req \<Rightarrow> False)"

text \<open>A header as the pair of its key and its value.\<close>

definition header_pair :: "ResponseHeader \<Rightarrow> string \<times> string" where
  "header_pair h = (ResponseHeader.Key h, ResponseHeader.Value h)"

subsection \<open>The JSON text of the response headers\<close>

text \<open>
  \<^verbatim>\<open>json.Marshal(response.Headers)\<close> gives the compact text of an array of objects with
  the members \<^verbatim>\<open>Key\<close> and \<^verbatim>\<open>Value\<close> (the struct has no tags). A string is quoted as
  \<^verbatim>\<open>encoding/json\<close> does with HTML escaping on: the quote and the backslash get a
  backslash, the control characters below \<open>0x20\<close> and \<^verbatim>\<open><\<close>, \<^verbatim>\<open>>\<close>, \<^verbatim>\<open>&\<close> are written
  as escapes, as are U+2028, U+2029 and every byte that is not part of well-formed
  UTF-8 (as U+FFFD). The short escapes for backspace and form feed are those of
  Go 1.22 and later.
\<close>

definition dquote :: char where
  "dquote = CHR 0x22"

definition backslash :: char where
  "backslash = CHR 0x5C"

definition hex_digit :: "nat \<Rightarrow> char" where
  "hex_digit n = ''0123456789abcdef'' ! (n mod 16)"

definition escape_ascii :: "char \<Rightarrow> string" where
  "escape_ascii c =
     (let b = (of_char c :: nat)
      in if 32 \<le> b \<and> c \<noteq> dquote \<and> c \<noteq> backslash \<and> c \<notin> set ''<>&'' then [c]
         else if c = dquote \<or> c = backslash then [backslash, c]
         else if b = 8 then [backslash, CHR ''b'']
         else if b = 12 then [backslash, CHR ''f'']
         else if b = 10 then [backslash, CHR ''n'']
         else if b = 13 then [backslash, CHR ''r'']
         else if b = 9 then [backslash, CHR ''t'']
         else [backslash, CHR ''u'', CHR ''0'', CHR ''0'', hex_digit (b div 16), hex_digit b])"

definition line_separator :: string where
  "line_separator = [CHR 0xE2, CHR 0x80, CHR 0xA8]"

definition paragraph_separator :: string where
  "paragraph_separator = [CHR 0xE2, CHR 0x80, CHR 0xA9]"

function escape_json :: "string \<Rightarrow> string" where
  "escape_json [] = []"
| "escape_json (c # s) =
     (if in_range 0 127 c then escape_ascii c @ escape_json s
      else
        (let n = rune_size (c # s)
         in if n = 0 then backslash # ''ufffd'' @ escape_json s
            else if take n (c # s) = line_separator
              then backslash # ''u2028'' @ escape_json (drop n (c # s))
            else if take n (c # s) = paragraph_separator
              then backslash # ''u2029'' @ escape_json (drop n (c # s))
            else take n (c # s) @ escape_json (drop n (c # s))))"
  by pat_completeness auto
termination
  by (relation "measure length") auto

declare escape_json.simps [simp del]

definition quote_json :: "string \<Rightarrow> string" where
  "quote_json s = dquote # escape_json s @ [dquote]"

definition marshal_ResponseHeader :: "ResponseHeader \<Rightarrow> string" where
  "marshal_ResponseHeader h =
     ''{'' @ quote_json ''Key'' @ '':'' @ quote_json (ResponseHeader.Key h) @ '',''
       @ quote_json ''Value'' @ '':'' @ quote_json (ResponseHeader.Value h) @ ''}''"

fun join_comma :: "string list \<Rightarrow> string" where
  "join_comma [] = []"
| "join_comma [x] = x"
| "join_comma (x # y # ys) = x @ '','' @ join_comma (y # ys)"

definition Marshal_headers :: "ResponseHeader list \<Rightarrow> string" where
  "Marshal_headers hs = ''['' @ join_comma (map marshal_ResponseHeader hs) @ '']''"

subsection \<open>Recording an executed request\<close>

text \<open>
  The part of the program's state the recorder touches: the store, the rows the history
  panel shows (\<^verbatim>\<open>hp.history\<close>), and what the program has printed on its standard
  output. The widgets the goroutine also updates belong to the user interface and are
  left out.
\<close>

record app_state =
  store :: DB
  hp_history :: "RequestHistory list"
  stdout :: "string list"

text \<open>The text of an error, \<^verbatim>\<open>err.Error()\<close>.\<close>

fun Error :: "error \<Rightarrow> string" where
  "Error (DriverError s) = s"
| "Error ForeignKeyConstraintFailed = ''constraint failed: FOREIGN KEY constraint failed''"
| "Error (FileError s) = s"
| "Error JSONSyntaxError = ''invalid character looking for beginning of value''"
| "Error JSONTypeError = ''json: cannot unmarshal value''"
| "Error NilPointerDereference = ''invalid memory address or nil pointer dereference''"
| "Error SavedRequestNotFound = ''saved request not found''"
| "Error (InvalidMethod s) = ''net/http: invalid method '' @ s"
| "Error (InvalidURL s) = ''net/url: invalid control character in URL''"
| "Error (TransportError s) = s"
| "Error (BodyReadError s) = s"

text \<open>
  \<^verbatim>\<open>AddToHistory\<close>: a failure of \<^verbatim>\<open>SaveRequestHistory\<close> is printed and the method
  returns; otherwise the saved request is put in front of the panel's rows, of which
  the first hundred are kept. The method has no result.
\<close>

definition AddToHistory :: "error option \<Rightarrow> RequestHistory \<Rightarrow> app_state \<Rightarrow> app_state" where
  "AddToHistory io req st =
     (case SaveRequestHistory io req (store st) of
        (Some e, req', db') \<Rightarrow>
          st\<lparr>stdout := stdout st @ [''Failed to save request to history: '' @ Error e]\<rparr>
      | (None, req', db') \<Rightarrow>
          st\<lparr>store := db', hp_history := take 100 (req' # hp_history st)\<rparr>)"

text \<open>\<^verbatim>\<open>Duration.Milliseconds()\<close>: integer division that truncates toward zero.\<close>

definition Milliseconds :: "int \<Rightarrow> int" where
  "Milliseconds d = (if d < 0 then - ((- d) div 1000000) else d div 1000000)"

text \<open>
  The entry the goroutine of \<^verbatim>\<open>submitRequest\<close> builds from the executor's outcome;
  \<open>now\<close> is \<^verbatim>\<open>time.Now()\<close>.
\<close>

definition historyEntry :: "time \<Rightarrow> string \<Rightarrow> string \<Rightarrow> error + ResponseInfo \<Rightarrow> RequestHistory" where
  "historyEntry now method url outcome =
     (let entry = zero_RequestHistory\<lparr>RequestHistory.URL := url,
                    RequestHistory.Method := method, Timestamp := now\<rparr>
      in case outcome of
           Inl err \<Rightarrow> entry\<lparr>ResponseStatus := ''Error''\<rparr>
         | Inr response \<Rightarrow>
             entry\<lparr>ResponseStatus := ResponseInfo.Status response,
                   ResponseBody := ResponseInfo.Body response,
                   ResponseTimeMs := Milliseconds (ResponseTime response),
                   ResponseSize := Size response,
                   ResponseHeaders := Marshal_headers (ResponseInfo.Headers response)\<rparr>)"

definition record_outcome ::
  "time \<Rightarrow> error option \<Rightarrow> string \<Rightarrow> string \<Rightarrow> error + ResponseInfo \<Rightarrow> app_state \<Rightarrow> app_state" where
  "record_outcome now sio method url outcome st =
     AddToHistory sio (historyEntry now method url outcome) st"

text \<open>
  \<^verbatim>\<open>submitRequest\<close>: nothing is executed or recorded for an empty URL; otherwise the
  goroutine executes the request and records the outcome.
\<close>

definition submitRequest ::
  "http_io \<Rightarrow> time \<Rightarrow> error option \<Rightarrow> string \<Rightarrow> string \<Rightarrow> app_state \<Rightarrow> app_state" where
  "submitRequest hio now sio method url st =
     (if url = [] then st
      else record_outcome now sio method url (executeRequest hio method url) st)"

section \<open>Example states\<close>

text \<open>
  A store reached through the package's own methods: a collection is created, and a
  history row and a saved request are stored with a reference to it.
\<close>

definition dangling_example :: DB where
  "dangling_example =
     (case CreateCollection None 0 0 ''c'' ''d'' empty_db of
        Inl e \<Rightarrow> empty_db
      | Inr (c, db1) \<Rightarrow>
          (case SaveRequestHistory None
                  (zero_RequestHistory\<lparr>RequestHistory.URL := ''http://a'',
                     RequestHistory.Method := ''GET'',
                     RequestHistory.CollectionID := Some (Collection.ID c)\<rparr>) db1 of
             (e2, req, db2) \<Rightarrow>
               (case SaveRequest None 0
                       \<lparr>SavedRequest.ID = 0, Name = ''s'', URL = ''http://a'', Method = ''GET'',
                        Headers = [], Body = [], CollectionID = Some (Collection.ID c),
                        CreatedAt = 0\<rparr> db2 of
                  (e3, sreq, db3) \<Rightarrow> db3)))"

text \<open>A store with one history row, a \<^verbatim>\<open>GET\<close> that was answered \<^verbatim>\<open>200 OK\<close>.\<close>

definition search_example :: DB where
  "search_example =
     snd (snd (SaveRequestHistory None
       (zero_RequestHistory\<lparr>RequestHistory.URL := ''http://a/x'',
          RequestHistory.Method := ''GET'', Timestamp := 5,
          ResponseStatus := ''200 OK''\<rparr>) empty_db))"


text \<open>A file with three history rows, and a driver that fails on the second insert.\<close>

definition three_rows :: file_content where
  "three_rows =
     JSONText (JArray
       [JObject [(''url'', JString ''http://a/1''), (''method'', JString ''GET'')],
        JObject [(''url'', JString ''http://a/2''), (''method'', JString ''GET'')],
        JObject [(''url'', JString ''http://a/3''), (''method'', JString ''GET'')]])"

definition second_insert_fails :: import_io where
  "second_insert_fails =
     \<lparr>begin_io = None,
      exec_io = (\<lambda>i. if i = 1 then Some (DriverError ''disk I/O error'') else None),
      commit_io = None\<rparr>"

text \<open>
  A world in which every URL parses and the server answers every request with the given
  status, header fields and body; the \<^verbatim>\<open>range\<close> over the header map takes the order \<open>ks\<close>.
\<close>

definition server_answers ::
  "string \<Rightarrow> (string \<times> string) list \<Rightarrow> string \<Rightarrow> string list \<Rightarrow> http_io" where
  "server_answers status received body ks =
     \<lparr>parse_url = (\<lambda>u. None),
      do_request = (\<lambda>m u t. Inr \<lparr>Response.Status = status, HeaderFields = received,
                                  Body = Inr body\<rparr>),
      elapsed = 12000000,
      range_order = ks\<rparr>"

text \<open>A URL with the control character \<open>0x7F\<close> in its path.\<close>

definition url_with_DEL :: string where
  "url_with_DEL = ''http://a/'' @ [CHR 0x7F]"

section \<open>Theorems\<close>

lemma scan_rows_append: "foldl append_slice (Some xs) rows = Some (xs @ rows)"
  by (induction rows arbitrary: xs) (simp_all add: append_slice_def)

lemma scan_rows_eq: "scan_rows rows = (if rows = [] then None else Some rows)"
  by (cases rows) (simp_all add: scan_rows_def append_slice_def scan_rows_append)

lemma slice_elems_scan_rows: "slice_elems (scan_rows rows) = rows"
  by (simp add: scan_rows_eq slice_elems_def)

subsection \<open>Deleting a collection\<close>

lemma dangling_example_eq:
  "dangling_example =
     \<lparr>preferences = [],
      collections = [\<lparr>Collection.ID = 1, Name = ''c'', Description = ''d'', CreatedAt = 0\<rparr>],
      request_history =
        [zero_RequestHistory\<lparr>RequestHistory.ID := 1, RequestHistory.URL := ''http://a'',
           RequestHistory.Method := ''GET'', RequestHistory.CollectionID := Some 1\<rparr>],
      saved_requests =
        [\<lparr>SavedRequest.ID = 1, Name = ''s'', URL = ''http://a'', Method = ''GET'',
          Headers = [], Body = [], CollectionID = Some 1, CreatedAt = 0\<rparr>],
      seq_collections = 1, seq_request_history = 1, seq_saved_requests = 1\<rparr>"
  by (simp add: dangling_example_def CreateCollection_def empty_db_def
      SaveRequestHistory_def insert_request_history_def initDB_foreign_keys_def
      SaveRequest_def Let_def)

text \<open>
  With foreign keys enforced, the statement of \<^verbatim>\<open>DeleteCollection\<close> does what the schema
  declares: no history row and no saved request refers to the deleted collection
  afterwards.
\<close>

lemma delete_collection_enforced:
  assumes "collection_exists c db"
  shows "list_all (\<lambda>r. RequestHistory.CollectionID r \<noteq> Some c)
           (request_history (delete_collection True c db))"
    and "list_all (\<lambda>r. SavedRequest.CollectionID r \<noteq> Some c)
           (saved_requests (delete_collection True c db))"
    and "\<not> collection_exists c (delete_collection True c db)"
  using assms
  by (auto simp: delete_collection_def Let_def list_all_iff collection_exists_def)

text \<open>
  C1 (the code departs from the claim). On the connection \<^verbatim>\<open>initDB\<close> opens, foreign
  keys are not enforced. In the store \<open>dangling_example\<close>, \<^verbatim>\<open>DeleteCollection(1)\<close>
  succeeds and removes the collection, and afterwards the history row still carries
  the collection reference \<open>1\<close>, which no collection has any more, and listing the
  saved requests of collection \<open>1\<close> still returns the saved request.
\<close>

theorem DeleteCollection_leaves_references:
  "fst (DeleteCollection None 1 dangling_example) = None
   \<and> collections (snd (DeleteCollection None 1 dangling_example)) = []
   \<and> (case GetRequestHistory None 100 0 (snd (DeleteCollection None 1 dangling_example)) of
        Inl e \<Rightarrow> False
      | Inr h \<Rightarrow> map RequestHistory.CollectionID (slice_elems h) = [Some 1])
   \<and> (case GetSavedRequests None (Some 1) (snd (DeleteCollection None 1 dangling_example)) of
        Inl e \<Rightarrow> False
      | Inr h \<Rightarrow> map SavedRequest.ID (slice_elems h) = [1])"
  by (simp add: dangling_example_eq DeleteCollection_def delete_collection_def
      initDB_foreign_keys_def GetRequestHistory_def GetSavedRequests_def
      order_by_timestamp_desc_def order_by_name_def sql_limit_def
      slice_elems_scan_rows Let_def)

subsection \<open>Preferences\<close>

lemma find_upsert_preference:
  "find (\<lambda>q. Preference.Key q = Preference.Key p) (upsert_preference p ps) = Some p"
  by (induction ps) auto

lemma upsert_preference_not_after:
  "list_all (\<lambda>q. UpdatedAt q \<le> t) ps \<Longrightarrow> UpdatedAt p \<le> t \<Longrightarrow>
   list_all (\<lambda>q. UpdatedAt q \<le> t) (upsert_preference p ps)"
  by (induction ps) auto

text \<open>
  The hypothesis of C8 holds along every run of a clock that does not go backwards: it
  holds in the empty store, and \<^verbatim>\<open>SetPreference\<close> at the reading \<open>now\<close> keeps it for
  every reading from \<open>now\<close> on.
\<close>

lemma preferences_not_after_empty: "preferences_not_after now empty_db"
  by (simp add: preferences_not_after_def empty_db_def)

lemma preferences_not_after_SetPreference:
  "preferences_not_after now db \<Longrightarrow> now \<le> later \<Longrightarrow>
   preferences_not_after later (snd (SetPreference io now key val db))"
proof -
  assume inv: "preferences_not_after now db" and le: "now \<le> later"
  from inv le have old: "list_all (\<lambda>q. UpdatedAt q \<le> later) (preferences db)"
    by (auto simp: preferences_not_after_def list_all_iff)
  show ?thesis
  proof (cases io)
    case None
    with old le show ?thesis
      by (simp add: SetPreference_def preferences_not_after_def upsert_preference_not_after)
  next
    case (Some e)
    with old show ?thesis
      by (simp add: SetPreference_def preferences_not_after_def)
  qed
qed

text \<open>
  C8. Let no stored preference be stamped later than the clock reading \<open>now\<close> at which
  \<^verbatim>\<open>SetPreference(key, value)\<close> runs. Then the call succeeds, and \<^verbatim>\<open>GetPreference(key)\<close>
  on the store it leaves returns the preference with exactly that key and value and
  with the timestamp \<open>now\<close>, which is not earlier than the timestamp the key had
  before, if it had one.
\<close>

theorem SetPreference_GetPreference:
  assumes "preferences_not_after now db"
  shows "fst (SetPreference None now key val db) = None
     \<and> GetPreference None key (snd (SetPreference None now key val db))
         = (Some \<lparr>Preference.Key = key, Value = val, UpdatedAt = now\<rparr>, None)
     \<and> (case fst (GetPreference None key db) of
          None \<Rightarrow> True
        | Some old \<Rightarrow> UpdatedAt old \<le> now)"
proof -
  have get: "find (\<lambda>q. Preference.Key q = key)
      (upsert_preference \<lparr>Preference.Key = key, Value = val, UpdatedAt = now\<rparr> (preferences db))
      = Some \<lparr>Preference.Key = key, Value = val, UpdatedAt = now\<rparr>"
    using find_upsert_preference
      [of "\<lparr>Preference.Key = key, Value = val, UpdatedAt = now\<rparr>" "preferences db"]
    by simp
  have before: "UpdatedAt old \<le> now"
    if "find (\<lambda>q. Preference.Key q = key) (preferences db) = Some old" for old
  proof -
    from that have "old \<in> set (preferences db)"
      by (auto simp: find_Some_iff)
    with assms show ?thesis
      by (simp add: preferences_not_after_def list_all_iff)
  qed
  show ?thesis
    using get before
    by (auto simp: SetPreference_def GetPreference_def split: option.splits)
qed

theorem SetPreference_GetPreference_witness:
  "preferences_not_after 7
     (snd (SetPreference None 5 ''last_url'' ''http://a'' empty_db))
   \<and> GetPreference None ''last_url''
       (snd (SetPreference None 7 ''last_url'' ''http://b''
          (snd (SetPreference None 5 ''last_url'' ''http://a'' empty_db))))
       = (Some \<lparr>Preference.Key = ''last_url'', Value = ''http://b'', UpdatedAt = 7\<rparr>, None)
   \<and> fst (GetPreference None ''last_url''
         (snd (SetPreference None 5 ''last_url'' ''http://a'' empty_db)))
       = Some \<lparr>Preference.Key = ''last_url'', Value = ''http://a'', UpdatedAt = 5\<rparr>"
proof -
  have h: "preferences_not_after 7
      (snd (SetPreference None 5 ''last_url'' ''http://a'' empty_db))"
    by (simp add: preferences_not_after_def SetPreference_def empty_db_def)
  show ?thesis
    using h SetPreference_GetPreference [OF h, of "''last_url''" "''http://b''"]
    by (simp add: SetPreference_def GetPreference_def empty_db_def)
qed

subsection \<open>Clearing the history\<close>

text \<open>
  C10. \<^verbatim>\<open>ClearRequestHistory\<close>, when the driver executes its statement, leaves no row in
  \<^verbatim>\<open>request_history\<close> and leaves the rows of \<^verbatim>\<open>preferences\<close>, \<^verbatim>\<open>collections\<close> and
  \<^verbatim>\<open>saved_requests\<close> as they were; when the driver reports an error, the store is
  unchanged altogether.
\<close>

theorem ClearRequestHistory_frame:
  "fst (ClearRequestHistory None db) = None
   \<and> request_history (snd (ClearRequestHistory None db)) = []
   \<and> preferences (snd (ClearRequestHistory None db)) = preferences db
   \<and> collections (snd (ClearRequestHistory None db)) = collections db
   \<and> saved_requests (snd (ClearRequestHistory None db)) = saved_requests db
   \<and> ClearRequestHistory (Some e) db = (Some e, db)"
  by (simp add: ClearRequestHistory_def)

subsection \<open>Searching the history\<close>














lemma search_example_eq:
  "request_history search_example =
     [zero_RequestHistory\<lparr>RequestHistory.ID := 1, RequestHistory.URL := ''http://a/x'',
        RequestHistory.Method := ''GET'', Timestamp := 5, ResponseStatus := ''200 OK''\<rparr>]"
  by (simp add: search_example_def SaveRequestHistory_def insert_request_history_def
      initDB_foreign_keys_def empty_db_def Let_def)




subsection \<open>Reading a file of history rows\<close>

lemma lower_names:
  "map ascii_lower ''id'' = ''id''"
  "map ascii_lower ''url'' = ''url''"
  "map ascii_lower ''method'' = ''method''"
  "map ascii_lower ''headers'' = ''headers''"
  "map ascii_lower ''body'' = ''body''"
  "map ascii_lower ''timestamp'' = ''timestamp''"
  "map ascii_lower ''response_status'' = ''response_status''"
  "map ascii_lower ''response_body'' = ''response_body''"
  "map ascii_lower ''response_headers'' = ''response_headers''"
  "map ascii_lower ''response_time_ms'' = ''response_time_ms''"
  "map ascii_lower ''response_size'' = ''response_size''"
  "map ascii_lower ''is_favorite'' = ''is_favorite''"
  "map ascii_lower ''collection_id'' = ''collection_id''"
  by (simp_all add: ascii_lower_def)

lemma unmarshal_member_fields:
  "is_int64 n \<Longrightarrow> unmarshal_member (''id'', JInteger n) r = Inr (r\<lparr>RequestHistory.ID := n\<rparr>)"
  "unmarshal_member (''url'', JString s) r = Inr (r\<lparr>RequestHistory.URL := to_valid_utf8 s\<rparr>)"
  "unmarshal_member (''method'', JString s) r = Inr (r\<lparr>RequestHistory.Method := to_valid_utf8 s\<rparr>)"
  "unmarshal_member (''headers'', JString s) r = Inr (r\<lparr>RequestHistory.Headers := to_valid_utf8 s\<rparr>)"
  "unmarshal_member (''body'', JString s) r = Inr (r\<lparr>RequestHistory.Body := to_valid_utf8 s\<rparr>)"
  "unmarshal_member (''timestamp'', JTime t) r = Inr (r\<lparr>Timestamp := t\<rparr>)"
  "unmarshal_member (''response_status'', JString s) r = Inr (r\<lparr>ResponseStatus := to_valid_utf8 s\<rparr>)"
  "unmarshal_member (''response_body'', JString s) r = Inr (r\<lparr>ResponseBody := to_valid_utf8 s\<rparr>)"
  "unmarshal_member (''response_headers'', JString s) r = Inr (r\<lparr>ResponseHeaders := to_valid_utf8 s\<rparr>)"
  "is_int64 n \<Longrightarrow> unmarshal_member (''response_time_ms'', JInteger n) r = Inr (r\<lparr>ResponseTimeMs := n\<rparr>)"
  "is_int64 n \<Longrightarrow> unmarshal_member (''response_size'', JInteger n) r = Inr (r\<lparr>ResponseSize := n\<rparr>)"
  "unmarshal_member (''is_favorite'', JBool b) r = Inr (r\<lparr>IsFavorite := b\<rparr>)"
  "is_int64 n \<Longrightarrow> unmarshal_member (''collection_id'', JInteger n) r = Inr (r\<lparr>RequestHistory.CollectionID := Some n\<rparr>)"
  unfolding unmarshal_member_def Let_def fst_conv snd_conv lower_names
  by (simp_all add: with_field_def unmarshal_int_def unmarshal_string_def
      unmarshal_bool_def unmarshal_time_def)

lemma to_valid_utf8_ascii_examples:
  "to_valid_utf8 ''http://a/1'' = ''http://a/1''"
  "to_valid_utf8 ''http://a/2'' = ''http://a/2''"
  "to_valid_utf8 ''http://a/3'' = ''http://a/3''"
  "to_valid_utf8 ''GET'' = ''GET''"
  by (simp_all add: to_valid_utf8.simps in_range_def Let_def)





lemma unmarshal_element_url_method:
  "to_valid_utf8 u = u \<Longrightarrow>
   unmarshal_element (JObject [(''url'', JString u), (''method'', JString ''GET'')])
     = Inr (Some (zero_RequestHistory\<lparr>RequestHistory.URL := u, RequestHistory.Method := ''GET''\<rparr>))"
  by (simp add: unmarshal_element_def unmarshal_member_fields to_valid_utf8_ascii_examples)

lemma Unmarshal_three_rows:
  "Unmarshal three_rows =
     Inr (map Some [zero_RequestHistory\<lparr>RequestHistory.URL := ''http://a/1'', RequestHistory.Method := ''GET''\<rparr>]
          @ Some (zero_RequestHistory\<lparr>RequestHistory.URL := ''http://a/2'', RequestHistory.Method := ''GET''\<rparr>)
          # [Some (zero_RequestHistory\<lparr>RequestHistory.URL := ''http://a/3'', RequestHistory.Method := ''GET''\<rparr>)])"
  unfolding three_rows_def Unmarshal_def
  by (simp add: unmarshal_element_url_method to_valid_utf8_ascii_examples)

subsection \<open>The import transaction\<close>

lemma insert_request_history_ok:
  "insert_request_history initDB_foreign_keys None req tx
     = Inr (seq_request_history tx + 1,
            tx\<lparr>request_history :=
                 request_history tx @ [req\<lparr>RequestHistory.ID := seq_request_history tx + 1\<rparr>],
               seq_request_history := seq_request_history tx + 1\<rparr>)"
  by (simp add: insert_request_history_def initDB_foreign_keys_def Let_def)

lemma insert_request_history_fault:
  "insert_request_history fk (Some e) req tx = Inl e"
  by (simp add: insert_request_history_def)

lemma import_loop_all:
  "(\<And>j. j < length rows \<Longrightarrow> xio (i + j) = None) \<Longrightarrow>
   import_loop xio i (map Some rows) tx
     = (Committed,
        tx\<lparr>request_history := request_history tx @ assign_ids (seq_request_history tx) rows,
           seq_request_history := seq_request_history tx + int (length rows)\<rparr>)"
proof (induction rows arbitrary: i tx)
  case Nil
  then show ?case by simp
next
  case (Cons r rows)
  have first: "xio i = None" using Cons.prems [of 0] by simp
  have rest: "\<And>j. j < length rows \<Longrightarrow> xio (Suc i + j) = None"
    using Cons.prems [of "Suc _"] by simp
  show ?case
    using Cons.IH [OF rest] first
    by (simp add: insert_request_history_ok add.commute add.left_commute)
qed

lemma import_loop_fails:
  "(\<And>j. j < length before \<Longrightarrow> xio (i + j) = None) \<Longrightarrow>
   xio (i + length before) = Some e \<Longrightarrow>
   fst (import_loop xio i (map Some before @ Some req # rest) tx) = Failed e"
proof (induction before arbitrary: i tx)
  case Nil
  then show ?case by (simp add: insert_request_history_fault)
next
  case (Cons r before)
  have first: "xio i = None" using Cons.prems(1) [of 0] by simp
  have others: "\<And>j. j < length before \<Longrightarrow> xio (Suc i + j) = None"
    using Cons.prems(1) [of "Suc _"] by simp
  have failing: "xio (Suc i + length before) = Some e"
    using Cons.prems(2) by simp
  show ?case
    using Cons.IH [OF others failing] first
    by (simp add: insert_request_history_ok)
qed

lemma ImportHistory_unchanged:
  "fst (ImportHistory io filepath fs db) \<noteq> Committed \<Longrightarrow>
   snd (ImportHistory io filepath fs db) = db"
  by (auto simp: ImportHistory_def split: sum.splits option.splits prod.splits import_result.splits)

text \<open>
  C3. However \<^verbatim>\<open>ImportHistory\<close> ends, if it does not end with the transaction
  committed, the store is exactly what it was before the call: no row of the batch
  stays behind. If the file is read and parsed, the transaction begins, the inserts
  of the rows \<open>before\<close> succeed and the insert of the next row \<open>req\<close> fails with the
  error \<open>e\<close>, the call returns \<open>e\<close> and leaves the store unchanged. If the insert of
  every row succeeds (and so does the commit), the call commits, and the store holds
  its old rows followed by all rows of the file, with the next keys in order.
\<close>

theorem ImportHistory_all_or_nothing:
  "(fst (ImportHistory io filepath fs db) \<noteq> Committed
      \<longrightarrow> snd (ImportHistory io filepath fs db) = db)
   \<and> (readFile filepath fs = Inr data
        \<and> Unmarshal data = Inr (map Some before @ Some req # rest)
        \<and> begin_io io = None
        \<and> (\<forall>j < length before. exec_io io j = None)
        \<and> exec_io io (length before) = Some e
      \<longrightarrow> ImportHistory io filepath fs db = (Failed e, db))
   \<and> (readFile filepath fs = Inr data
        \<and> Unmarshal data = Inr (map Some rows)
        \<and> begin_io io = None
        \<and> (\<forall>j < length rows. exec_io io j = None)
        \<and> commit_io io = None
      \<longrightarrow> ImportHistory io filepath fs db
            = (Committed,
               db\<lparr>request_history :=
                    request_history db @ assign_ids (seq_request_history db) rows,
                  seq_request_history := seq_request_history db + int (length rows)\<rparr>))"
proof (intro conjI impI)
  assume "fst (ImportHistory io filepath fs db) \<noteq> Committed"
  then show "snd (ImportHistory io filepath fs db) = db"
    by (rule ImportHistory_unchanged)
next
  assume a: "readFile filepath fs = Inr data
        \<and> Unmarshal data = Inr (map Some before @ Some req # rest)
        \<and> begin_io io = None
        \<and> (\<forall>j < length before. exec_io io j = None)
        \<and> exec_io io (length before) = Some e"
  then have "fst (import_loop (exec_io io) 0 (map Some before @ Some req # rest) db) = Failed e"
    using import_loop_fails [of before "exec_io io" 0 e req rest db] by simp
  with a show "ImportHistory io filepath fs db = (Failed e, db)"
    by (auto simp: ImportHistory_def split: prod.splits)
next
  assume a: "readFile filepath fs = Inr data
        \<and> Unmarshal data = Inr (map Some rows)
        \<and> begin_io io = None
        \<and> (\<forall>j < length rows. exec_io io j = None)
        \<and> commit_io io = None"
  then have "import_loop (exec_io io) 0 (map Some rows) db
      = (Committed,
         db\<lparr>request_history := request_history db @ assign_ids (seq_request_history db) rows,
            seq_request_history := seq_request_history db + int (length rows)\<rparr>)"
    using import_loop_all [of rows "exec_io io" 0 db] by simp
  with a show "ImportHistory io filepath fs db
      = (Committed,
         db\<lparr>request_history := request_history db @ assign_ids (seq_request_history db) rows,
            seq_request_history := seq_request_history db + int (length rows)\<rparr>)"
    by (simp add: ImportHistory_def)
qed

text \<open>
  The file \<open>three_rows\<close> imported into a store that holds one row: when the driver
  fails on the second insert, the error comes back and the store is unchanged; when
  it does not fail, the store holds four rows.
\<close>

theorem ImportHistory_all_or_nothing_witness:
  "ImportHistory second_insert_fails ''in.json'' [''in.json'' \<mapsto> three_rows] search_example
     = (Failed (DriverError ''disk I/O error''), search_example)
   \<and> fst (ImportHistory no_faults ''in.json'' [''in.json'' \<mapsto> three_rows] search_example)
       = Committed
   \<and> map RequestHistory.ID (request_history
         (snd (ImportHistory no_faults ''in.json'' [''in.json'' \<mapsto> three_rows] search_example)))
       = [1, 2, 3, 4]"
proof -
  let ?fs = "[''in.json'' \<mapsto> three_rows]"
  let ?r1 = "zero_RequestHistory\<lparr>RequestHistory.URL := ''http://a/1'', RequestHistory.Method := ''GET''\<rparr>"
  let ?r2 = "zero_RequestHistory\<lparr>RequestHistory.URL := ''http://a/2'', RequestHistory.Method := ''GET''\<rparr>"
  let ?r3 = "zero_RequestHistory\<lparr>RequestHistory.URL := ''http://a/3'', RequestHistory.Method := ''GET''\<rparr>"
  have rd: "readFile ''in.json'' ?fs = Inr three_rows"
    by (simp add: readFile_def)
  have seq: "seq_request_history search_example = 1"
    by (simp add: search_example_def SaveRequestHistory_def insert_request_history_def
        initDB_foreign_keys_def empty_db_def Let_def)
  have fails: "ImportHistory second_insert_fails ''in.json'' ?fs search_example
      = (Failed (DriverError ''disk I/O error''), search_example)"
    using ImportHistory_all_or_nothing
      [of second_insert_fails "''in.json''" ?fs search_example three_rows "[?r1]" ?r2
          "[Some ?r3]" "DriverError ''disk I/O error''"]
    by (simp add: rd Unmarshal_three_rows second_insert_fails_def)
  have ok: "ImportHistory no_faults ''in.json'' ?fs search_example
      = (Committed,
         search_example\<lparr>request_history :=
             request_history search_example
               @ assign_ids (seq_request_history search_example) [?r1, ?r2, ?r3],
           seq_request_history := seq_request_history search_example + int (length [?r1, ?r2, ?r3])\<rparr>)"
    using ImportHistory_all_or_nothing
      [of no_faults "''in.json''" ?fs search_example three_rows _ _ _ _ "[?r1, ?r2, ?r3]"]
    by (simp add: rd Unmarshal_three_rows no_faults_def)
  show ?thesis
    using fails ok by (simp add: seq search_example_eq)
qed

subsection \<open>Coercion to well-formed UTF-8\<close>

lemma rune_size_prefix:
  assumes "rune_size xs = n" and "0 < n"
  shows "rune_size (take n xs @ ys) = n"
proof (cases xs)
  case Nil
  with assms show ?thesis by simp
next
  case (Cons b0 rest)
  note xs = Cons
  consider (one) "in_range 0 127 b0"
    | (two) "\<not> in_range 0 127 b0" "in_range 194 223 b0"
    | (three) "\<not> in_range 0 127 b0" "\<not> in_range 194 223 b0" "in_range 224 239 b0"
    | (four) "\<not> in_range 0 127 b0" "\<not> in_range 194 223 b0" "\<not> in_range 224 239 b0"
        "in_range 240 244 b0"
    | (none) "\<not> in_range 0 127 b0" "\<not> in_range 194 223 b0" "\<not> in_range 224 239 b0"
        "\<not> in_range 240 244 b0"
    by blast
  then show ?thesis
  proof cases
    case one
    with assms xs show ?thesis by auto
  next
    case two
    show ?thesis
    proof (cases rest)
      case Nil
      with two assms xs show ?thesis by simp
    next
      case (Cons b1 r1)
      with two assms xs show ?thesis by (auto split: if_splits)
    qed
  next
    case three
    show ?thesis
    proof (cases rest)
      case Nil
      with three assms xs show ?thesis by simp
    next
      case c1: (Cons b1 r1)
      show ?thesis
      proof (cases r1)
        case Nil
        with c1 three assms xs show ?thesis by simp
      next
        case (Cons b2 r2)
        with c1 three assms xs show ?thesis
          by (simp split: if_splits)
      qed
    qed
  next
    case four
    show ?thesis
    proof (cases rest)
      case Nil
      with four assms xs show ?thesis by simp
    next
      case c1: (Cons b1 r1)
      show ?thesis
      proof (cases r1)
        case Nil
        with c1 four assms xs show ?thesis by simp
      next
        case c2: (Cons b2 r2)
        show ?thesis
        proof (cases r2)
          case Nil
          with c1 c2 four assms xs show ?thesis by simp
        next
          case (Cons b3 r3)
          with c1 c2 four assms xs show ?thesis
            by (simp split: if_splits)
        qed
      qed
    qed
  next
    case none
    with assms xs show ?thesis by simp
  qed
qed

lemma rune_size_le_length: "rune_size xs \<le> length xs"
proof (cases xs)
  case Nil
  then show ?thesis by simp
next
  case (Cons b0 rest)
  then show ?thesis
    by (cases rest; cases "tl rest"; cases "tl (tl rest)") (simp_all)
qed

lemma to_valid_utf8_rune:
  assumes "rune_size xs = n" and "0 < n"
  shows "to_valid_utf8 (take n xs @ ys) = take n xs @ to_valid_utf8 ys"
proof -
  from assms obtain c s where xs: "xs = c # s" by (cases xs) auto
  have len: "n \<le> length xs" using assms(1) rune_size_le_length [of xs] by simp
  from assms(2) obtain m where n: "n = Suc m" by (cases n) auto
  have shape: "take n xs @ ys = c # (take m s @ ys)" by (simp add: xs n)
  have size: "rune_size (c # (take m s @ ys)) = n"
    using rune_size_prefix [OF assms, of ys] by (simp add: shape)
  have "to_valid_utf8 (c # (take m s @ ys))
      = take n (c # (take m s @ ys)) @ to_valid_utf8 (drop n (c # (take m s @ ys)))"
    using assms(2)
    by (subst to_valid_utf8.simps(2)) (simp add: size Let_def del: rune_size.simps)
  moreover have "take n (c # (take m s @ ys)) = take n xs"
    using len by (simp add: shape [symmetric] del: rune_size.simps)
  moreover have "drop n (c # (take m s @ ys)) = ys"
    using len by (simp add: shape [symmetric] del: rune_size.simps)
  ultimately show ?thesis by (simp add: shape del: rune_size.simps)
qed

lemma to_valid_utf8_replacement:
  "to_valid_utf8 (replacement_rune @ ys) = replacement_rune @ to_valid_utf8 ys"
  by (simp add: replacement_rune_def to_valid_utf8.simps in_range_def Let_def)

lemma to_valid_utf8_idem: "to_valid_utf8 (to_valid_utf8 s) = to_valid_utf8 s"
proof (induction s rule: to_valid_utf8.induct)
  case 1
  then show ?case by (simp add: to_valid_utf8.simps)
next
  case (2 c s)
  show ?case
  proof (cases "rune_size (c # s) = 0")
    case True
    then have "to_valid_utf8 (c # s) = replacement_rune @ to_valid_utf8 s"
      by (subst to_valid_utf8.simps(2)) (simp add: Let_def del: rune_size.simps)
    with 2(1) [OF refl True] show ?thesis
      by (simp add: to_valid_utf8_replacement del: rune_size.simps)
  next
    case False
    define n where "n = rune_size (c # s)"
    with False have pos: "0 < n" by simp
    have step: "to_valid_utf8 (c # s) = take n (c # s) @ to_valid_utf8 (drop n (c # s))"
      using False
      by (subst to_valid_utf8.simps(2)) (simp add: n_def Let_def del: rune_size.simps)
    have ih: "to_valid_utf8 (to_valid_utf8 (drop n (c # s))) = to_valid_utf8 (drop n (c # s))"
      using 2(2) [OF refl False] by (simp add: n_def)
    show ?thesis
      unfolding step
      using to_valid_utf8_rune [OF n_def [symmetric] pos, of "to_valid_utf8 (drop n (c # s))"] ih
      by (simp del: rune_size.simps)
  qed
qed

lemma valid_utf8_to_valid_utf8: "valid_utf8 (to_valid_utf8 s)"
  by (simp add: valid_utf8_def to_valid_utf8_idem)


lemma utf8_row_coerce_row: "utf8_row (coerce_row r)"
  by (simp add: utf8_row_def coerce_row_def valid_utf8_to_valid_utf8)

subsection \<open>Export, and export followed by import\<close>








lemma forget_ID_coerce_row: "forget_ID (coerce_row r) = coerce_row (forget_ID r)"
  by (simp add: forget_ID_def coerce_row_def)














subsection \<open>Executing a request\<close>

lemma NewRequest_accepted:
  "\<not> request_rejected io method url \<Longrightarrow>
   NewRequest io method url = Inr (if method = [] then ''GET'' else method, url)"
  unfolding request_rejected_def NewRequest_def Let_def
  by (simp split: if_splits option.splits)

lemma NewRequest_rejected:
  "request_rejected io method url \<Longrightarrow> \<exists>e. NewRequest io method url = Inl e"
  unfolding request_rejected_def
  by (cases "NewRequest io method url") simp_all

lemma executeRequest_accepted:
  "\<not> request_rejected io method url \<Longrightarrow>
   executeRequest io method url =
     (case do_request io (if method = [] then ''GET'' else method) url client_Timeout of
        Inl e \<Rightarrow> Inl e
      | Inr resp \<Rightarrow>
          (case Response.Body resp of
             Inl e \<Rightarrow> Inl e
           | Inr body \<Rightarrow>
               Inr \<lparr>ResponseInfo.Body = body,
                    Headers = range_Header (range_order io) (Header resp),
                    Status = Response.Status resp,
                    Size = int (length body),
                    ResponseTime = elapsed io\<rparr>))"
  by (simp add: executeRequest_def NewRequest_accepted)

lemma executeRequest_rejected:
  "request_rejected io method url \<Longrightarrow> \<exists>e. executeRequest io method url = Inl e"
  using NewRequest_rejected [of io "method" url]
  by (auto simp: executeRequest_def)
lemma validMethod_GET: "validMethod ''GET''"
  by (simp add: validMethod_def is_token_char_def in_range_def)

text \<open>
  C5, as stated, fails. In a world where every URL without control characters parses
  and the server would answer \<^verbatim>\<open>200 OK\<close>, \<^verbatim>\<open>executeRequest("GET", url)\<close> for a URL with
  the character \<open>0x7F\<close> returns an error: \<^verbatim>\<open>http.NewRequest\<close> rejects the URL before
  anything is sent, so the error is not a failure of the transport.
\<close>

theorem executeRequest_rejects_counterexample:
  "executeRequest (server_answers ''200 OK'' [] ''ok'' []) ''GET'' url_with_DEL
     = Inl (InvalidURL url_with_DEL)
   \<and> \<not> transport_failure (server_answers ''200 OK'' [] ''ok'' []) ''GET'' url_with_DEL"
  by (simp add: executeRequest_def NewRequest_def validMethod_GET url_with_DEL_def
      stringContainsCTLByte_def in_range_def transport_failure_def server_answers_def)

text \<open>
  C5, amended. \<^verbatim>\<open>executeRequest(method, url)\<close> returns an error exactly when
  \<^verbatim>\<open>http.NewRequest\<close> rejects the method or the URL, or the transport fails
  (\<^verbatim>\<open>client.Do\<close>, under the fixed timeout of thirty seconds, or reading the body).
  When the request is accepted and the server's response is read, the call succeeds
  whatever the status of the response is, and the result carries that status, the
  body, its length and the elapsed time.
\<close>

theorem executeRequest_error_iff:
  "((\<exists>e. executeRequest io method url = Inl e)
      = (request_rejected io method url \<or> transport_failure io method url))
   \<and> (\<not> request_rejected io method url
        \<and> do_request io (if method = [] then ''GET'' else method) url client_Timeout = Inr resp
        \<and> Response.Body resp = Inr body
      \<longrightarrow> (\<exists>info. executeRequest io method url = Inr info
             \<and> ResponseInfo.Status info = Response.Status resp
             \<and> ResponseInfo.Body info = body
             \<and> Size info = int (length body)
             \<and> ResponseTime info = elapsed io))"
proof (intro conjI impI)
  show "(\<exists>e. executeRequest io method url = Inl e)
      = (request_rejected io method url \<or> transport_failure io method url)"
  proof (cases "request_rejected io method url")
    case True
    then show ?thesis
      using executeRequest_rejected [of io "method" url] by simp
  next
    case False
    then show ?thesis
      by (auto simp: executeRequest_accepted transport_failure_def split: sum.splits)
  qed
next
  assume "\<not> request_rejected io method url
        \<and> do_request io (if method = [] then ''GET'' else method) url client_Timeout = Inr resp
        \<and> Response.Body resp = Inr body"
  then show "\<exists>info. executeRequest io method url = Inr info
             \<and> ResponseInfo.Status info = Response.Status resp
             \<and> ResponseInfo.Body info = body
             \<and> Size info = int (length body)
             \<and> ResponseTime info = elapsed io"
    by (simp add: executeRequest_accepted)
qed

text \<open>A response with the status \<^verbatim>\<open>404 Not Found\<close> is a successful execution.\<close>

theorem executeRequest_error_iff_witness:
  "\<not> request_rejected (server_answers ''404 Not Found'' [] ''gone'' []) ''GET'' ''http://a/''
   \<and> (\<exists>info. executeRequest (server_answers ''404 Not Found'' [] ''gone'' []) ''GET'' ''http://a/''
           = Inr info
         \<and> ResponseInfo.Status info = ''404 Not Found'')"
proof -
  let ?io = "server_answers ''404 Not Found'' [] ''gone'' []"
  have r: "\<not> request_rejected ?io ''GET'' ''http://a/''"
    by (simp add: request_rejected_def NewRequest_def validMethod_GET
        stringContainsCTLByte_def in_range_def server_answers_def)
  have d: "do_request ?io (if ''GET'' = [] then ''GET'' else ''GET'') ''http://a/'' client_Timeout
      = Inr \<lparr>Response.Status = ''404 Not Found'', HeaderFields = [], Body = Inr ''gone''\<rparr>"
    by (simp add: server_answers_def)
  from executeRequest_error_iff
    [of ?io "''GET''" "''http://a/''"
        "\<lparr>Response.Status = ''404 Not Found'', HeaderFields = [], Body = Inr ''gone''\<rparr>"
        "''gone''"] r d
  show ?thesis by auto
qed

subsection \<open>The headers of a response\<close>

lemma foldl_add_field:
  "foldl add_field h fs k =
     (if filter (\<lambda>p. fst p = k) fs = [] then h k
      else Some ((case h k of None \<Rightarrow> [] | Some vs \<Rightarrow> vs) @ map snd (filter (\<lambda>p. fst p = k) fs)))"
proof (induction fs arbitrary: h)
  case Nil
  then show ?case by simp
next
  case (Cons p fs)
  have "foldl add_field h (p # fs) k = foldl add_field (add_field h p) fs k"
    by simp
  also have "\<dots> =
     (if filter (\<lambda>q. fst q = k) fs = [] then add_field h p k
      else Some ((case add_field h p k of None \<Rightarrow> [] | Some vs \<Rightarrow> vs)
                 @ map snd (filter (\<lambda>q. fst q = k) fs)))"
    by (rule Cons.IH)
  also have "\<dots> =
     (if filter (\<lambda>q. fst q = k) (p # fs) = [] then h k
      else Some ((case h k of None \<Rightarrow> [] | Some vs \<Rightarrow> vs)
                 @ map snd (filter (\<lambda>q. fst q = k) (p # fs))))"
    by (cases "fst p = k") (simp_all add: add_field_def split: option.splits)
  finally show ?case .
qed

lemma Header_lookup:
  "Header resp k =
     (if filter (\<lambda>p. fst p = k) (HeaderFields resp) = [] then None
      else Some (map snd (filter (\<lambda>p. fst p = k) (HeaderFields resp))))"
  by (simp add: Header_def foldl_add_field)

lemma map_header_pair_range_Header:
  "map header_pair (range_Header ks (Header resp))
     = concat (map (\<lambda>k. filter (\<lambda>p. fst p = k) (HeaderFields resp)) ks)"
proof -
  have one: "map header_pair
       (case Header resp k of
          None \<Rightarrow> []
        | Some vs \<Rightarrow> map (\<lambda>v. \<lparr>ResponseHeader.Key = k, Value = v\<rparr>) vs)
      = filter (\<lambda>p. fst p = k) (HeaderFields resp)" for k
  proof -
    have "map (\<lambda>v. (k, v)) (map snd (filter (\<lambda>p. fst p = k) fs)) = filter (\<lambda>p. fst p = k) fs"
      for fs :: "(string \<times> string) list"
      by (induction fs) auto
    then show ?thesis
      by (simp add: Header_lookup header_pair_def comp_def)
  qed
  show ?thesis
    by (simp add: range_Header_def map_concat comp_def one)
qed

lemma filter_concat_keys:
  assumes "distinct ks"
  shows "filter (\<lambda>p. fst p = k) (concat (map (\<lambda>j. filter (\<lambda>p. fst p = j) fs) ks))
     = (if k \<in> set ks then filter (\<lambda>p. fst p = k) fs else [])"
  using assms
proof (induction ks)
  case Nil
  then show ?case by simp
next
  case (Cons j ks)
  have same: "filter (\<lambda>p. fst p = j \<and> fst p = k) fs
      = (if j = k then filter (\<lambda>p. fst p = k) fs else [])"
    by (induction fs) auto
  from Cons show ?case
    by (auto simp: same)
qed

lemma mset_eq_by_key:
  fixes xs ys :: "('a \<times> 'b) list"
  assumes "\<And>k. filter (\<lambda>p. fst p = k) xs = filter (\<lambda>p. fst p = k) ys"
  shows "mset xs = mset ys"
proof (rule multiset_eqI)
  fix p :: "'a \<times> 'b"
  have "count (mset xs) p = count (mset (filter (\<lambda>q. fst q = fst p) xs)) p"
    by (simp add: count_mset)
  also have "\<dots> = count (mset (filter (\<lambda>q. fst q = fst p) ys)) p"
    by (simp only: assms)
  also have "\<dots> = count (mset ys) p"
    by (simp add: count_mset)
  finally show "count (mset xs) p = count (mset ys) p" .
qed

text \<open>
  C6, as stated, fails. The response carries the header \<^verbatim>\<open>A: 1\<close> and then the header
  \<^verbatim>\<open>B: 2\<close>; when the \<^verbatim>\<open>range\<close> over the header map visits \<^verbatim>\<open>B\<close> before \<^verbatim>\<open>A\<close>, which Go
  allows, the result lists \<^verbatim>\<open>B: 2\<close> before \<^verbatim>\<open>A: 1\<close>.
\<close>

theorem executeRequest_header_order_counterexample:
  "visits_each_key_once [''B'', ''A'']
     \<lparr>Response.Status = ''200 OK'', HeaderFields = [(''A'', ''1''), (''B'', ''2'')],
      Body = Inr ''ok''\<rparr>
   \<and> (case executeRequest
             (server_answers ''200 OK'' [(''A'', ''1''), (''B'', ''2'')] ''ok'' [''B'', ''A''])
             ''GET'' ''http://a/'' of
        Inl e \<Rightarrow> False
      | Inr info \<Rightarrow>
          map header_pair (ResponseInfo.Headers info) = [(''B'', ''2''), (''A'', ''1'')])"
  by (simp add: visits_each_key_once_def executeRequest_def NewRequest_def validMethod_GET
      stringContainsCTLByte_def in_range_def server_answers_def range_Header_def
      Header_lookup header_pair_def insert_commute)

text \<open>
  C6, amended. For a successful execution whose \<^verbatim>\<open>range\<close> visits every key of the header
  map once, in whatever order: the result holds one pair for every header field of the
  response, each as often as the response carries it; the values of one key appear in
  the order received; and the pairs of one key stand together, the keys in the order
  the \<^verbatim>\<open>range\<close> took, which need not be the order received.
\<close>

theorem executeRequest_headers:
  assumes ok: "executeRequest io method url = Inr info"
    and resp: "do_request io (if method = [] then ''GET'' else method) url client_Timeout = Inr resp"
    and order: "visits_each_key_once (range_order io) resp"
  shows "mset (map header_pair (ResponseInfo.Headers info)) = mset (HeaderFields resp)
     \<and> (\<forall>k. filter (\<lambda>p. fst p = k) (map header_pair (ResponseInfo.Headers info))
              = filter (\<lambda>p. fst p = k) (HeaderFields resp))
     \<and> map header_pair (ResponseInfo.Headers info)
         = concat (map (\<lambda>k. filter (\<lambda>p. fst p = k) (HeaderFields resp)) (range_order io))"
proof -
  have rej: "\<not> request_rejected io method url"
    using ok executeRequest_rejected [of io "method" url] by auto
  have h: "ResponseInfo.Headers info = range_Header (range_order io) (Header resp)"
    using ok resp by (auto simp: executeRequest_accepted [OF rej] split: sum.splits)
  have c: "map header_pair (ResponseInfo.Headers info)
      = concat (map (\<lambda>k. filter (\<lambda>p. fst p = k) (HeaderFields resp)) (range_order io))"
    by (simp add: h map_header_pair_range_Header)
  have d: "distinct (range_order io)"
    and s: "set (range_order io) = set (map fst (HeaderFields resp))"
    using order by (simp_all add: visits_each_key_once_def)
  have by_key: "filter (\<lambda>p. fst p = k) (map header_pair (ResponseInfo.Headers info))
      = filter (\<lambda>p. fst p = k) (HeaderFields resp)" for k
  proof (cases "k \<in> set (range_order io)")
    case True
    then show ?thesis by (simp add: c filter_concat_keys [OF d])
  next
    case False
    with s have "filter (\<lambda>p. fst p = k) (HeaderFields resp) = []"
      by (auto simp: filter_empty_conv)
    with False show ?thesis by (simp add: c filter_concat_keys [OF d])
  qed
  from by_key have "mset (map header_pair (ResponseInfo.Headers info)) = mset (HeaderFields resp)"
    by (rule mset_eq_by_key)
  with by_key c show ?thesis by blast
qed

text \<open>
  Three header fields under two keys, visited in the order \<^verbatim>\<open>B\<close>, \<^verbatim>\<open>A\<close>: the values
  \<^verbatim>\<open>1\<close> and \<^verbatim>\<open>3\<close> of \<^verbatim>\<open>A\<close> stay in their order.
\<close>

theorem executeRequest_headers_witness:
  "visits_each_key_once [''B'', ''A'']
     \<lparr>Response.Status = ''200 OK'',
      HeaderFields = [(''A'', ''1''), (''B'', ''2''), (''A'', ''3'')], Body = Inr ''ok''\<rparr>
   \<and> (\<exists>info. executeRequest
          (server_answers ''200 OK'' [(''A'', ''1''), (''B'', ''2''), (''A'', ''3'')] ''ok''
             [''B'', ''A'']) ''GET'' ''http://a/'' = Inr info
        \<and> map header_pair (ResponseInfo.Headers info)
            = [(''B'', ''2''), (''A'', ''1''), (''A'', ''3'')])"
proof -
  let ?resp = "\<lparr>Response.Status = ''200 OK'',
      HeaderFields = [(''A'', ''1''), (''B'', ''2''), (''A'', ''3'')], Body = Inr ''ok''\<rparr>"
  let ?io = "server_answers ''200 OK'' [(''A'', ''1''), (''B'', ''2''), (''A'', ''3'')] ''ok''
      [''B'', ''A'']"
  have v: "visits_each_key_once [''B'', ''A''] ?resp"
    by (simp add: visits_each_key_once_def insert_commute)
  have v': "visits_each_key_once (range_order ?io) ?resp"
    using v by (simp add: server_answers_def)
  have d: "do_request ?io (if ''GET'' = [] then ''GET'' else ''GET'') ''http://a/'' client_Timeout
      = Inr ?resp"
    by (simp add: server_answers_def)
  obtain info where ok: "executeRequest ?io ''GET'' ''http://a/'' = Inr info"
    by (simp add: executeRequest_def NewRequest_def validMethod_GET
        stringContainsCTLByte_def in_range_def server_answers_def)
  from executeRequest_headers [OF ok d v']
  have "map header_pair (ResponseInfo.Headers info)
      = concat (map (\<lambda>k. filter (\<lambda>p. fst p = k) (HeaderFields ?resp)) (range_order ?io))"
    by blast
  then have hp: "map header_pair (ResponseInfo.Headers info)
      = [(''B'', ''2''), (''A'', ''1''), (''A'', ''3'')]"
    by (simp add: server_answers_def)
  show ?thesis
  proof (intro conjI exI)
    show "visits_each_key_once [''B'', ''A''] ?resp" by (rule v)
    show "executeRequest ?io ''GET'' ''http://a/'' = Inr info" by (rule ok)
    show "map header_pair (ResponseInfo.Headers info)
        = [(''B'', ''2''), (''A'', ''1''), (''A'', ''3'')]" by (rule hp)
  qed
qed

subsection \<open>Recording the outcome\<close>

text \<open>
  C7. The entry built for an executed request carries the URL, the method and, as its
  timestamp, the current time, whatever the outcome. After an error of the executor
  its status is \<^verbatim>\<open>Error\<close> and its response body, headers, time and size are empty or
  zero; after a success it carries the executor's status, body, time in milliseconds
  and size, and the JSON text of the headers. When the store accepts the entry, it
  becomes the last row of the history under the next key and the first row of the
  panel. When the store reports an error, the only effect is one line printed on the
  standard output: the store and the panel are unchanged, and nothing is returned to
  the caller in either case. \<^verbatim>\<open>submitRequest\<close> records in this way the outcome of
  \<^verbatim>\<open>executeRequest\<close> for every URL that is not empty.
\<close>

theorem record_outcome_history:
  "RequestHistory.URL (historyEntry now method url outcome) = url
   \<and> RequestHistory.Method (historyEntry now method url outcome) = method
   \<and> Timestamp (historyEntry now method url outcome) = now
   \<and> ResponseStatus (historyEntry now method url (Inl err)) = ''Error''
   \<and> ResponseBody (historyEntry now method url (Inl err)) = []
   \<and> ResponseHeaders (historyEntry now method url (Inl err)) = []
   \<and> ResponseTimeMs (historyEntry now method url (Inl err)) = 0
   \<and> ResponseSize (historyEntry now method url (Inl err)) = 0
   \<and> ResponseStatus (historyEntry now method url (Inr response)) = ResponseInfo.Status response
   \<and> ResponseBody (historyEntry now method url (Inr response)) = ResponseInfo.Body response
   \<and> ResponseHeaders (historyEntry now method url (Inr response))
       = Marshal_headers (ResponseInfo.Headers response)
   \<and> ResponseTimeMs (historyEntry now method url (Inr response))
       = Milliseconds (ResponseTime response)
   \<and> ResponseSize (historyEntry now method url (Inr response)) = Size response
   \<and> record_outcome now None method url outcome st
       = st\<lparr>store := (store st)\<lparr>request_history :=
                  request_history (store st)
                    @ [(historyEntry now method url outcome)
                         \<lparr>RequestHistory.ID := seq_request_history (store st) + 1\<rparr>],
                seq_request_history := seq_request_history (store st) + 1\<rparr>,
            hp_history := take 100
              ((historyEntry now method url outcome)
                 \<lparr>RequestHistory.ID := seq_request_history (store st) + 1\<rparr> # hp_history st)\<rparr>
   \<and> record_outcome now (Some e) method url outcome st
       = st\<lparr>stdout := stdout st @ [''Failed to save request to history: '' @ Error e]\<rparr>
   \<and> submitRequest hio now sio method (c # cs) st
       = record_outcome now sio method (c # cs) (executeRequest hio method (c # cs)) st"
proof -
  have entry: "historyEntry now method url outcome
      = (case outcome of
           Inl err \<Rightarrow> zero_RequestHistory\<lparr>RequestHistory.URL := url,
               RequestHistory.Method := method, Timestamp := now, ResponseStatus := ''Error''\<rparr>
         | Inr response \<Rightarrow> zero_RequestHistory\<lparr>RequestHistory.URL := url,
               RequestHistory.Method := method, Timestamp := now,
               ResponseStatus := ResponseInfo.Status response,
               ResponseBody := ResponseInfo.Body response,
               ResponseTimeMs := Milliseconds (ResponseTime response),
               ResponseSize := Size response,
               ResponseHeaders := Marshal_headers (ResponseInfo.Headers response)\<rparr>)"
    for outcome
    by (simp add: historyEntry_def Let_def split: sum.splits)
  have fixed: "RequestHistory.URL (historyEntry now method url outcome) = url
      \<and> RequestHistory.Method (historyEntry now method url outcome) = method
      \<and> Timestamp (historyEntry now method url outcome) = now"
    by (cases outcome) (simp_all add: entry)
  have failure: "ResponseStatus (historyEntry now method url (Inl err)) = ''Error''
      \<and> ResponseBody (historyEntry now method url (Inl err)) = []
      \<and> ResponseHeaders (historyEntry now method url (Inl err)) = []
      \<and> ResponseTimeMs (historyEntry now method url (Inl err)) = 0
      \<and> ResponseSize (historyEntry now method url (Inl err)) = 0"
    by (simp add: entry zero_RequestHistory_def)
  have success: "ResponseStatus (historyEntry now method url (Inr response)) = ResponseInfo.Status response
      \<and> ResponseBody (historyEntry now method url (Inr response)) = ResponseInfo.Body response
      \<and> ResponseHeaders (historyEntry now method url (Inr response))
          = Marshal_headers (ResponseInfo.Headers response)
      \<and> ResponseTimeMs (historyEntry now method url (Inr response))
          = Milliseconds (ResponseTime response)
      \<and> ResponseSize (historyEntry now method url (Inr response)) = Size response"
    by (simp add: entry)
  have saved: "record_outcome now None method url outcome st
      = st\<lparr>store := (store st)\<lparr>request_history :=
                  request_history (store st)
                    @ [(historyEntry now method url outcome)
                         \<lparr>RequestHistory.ID := seq_request_history (store st) + 1\<rparr>],
                seq_request_history := seq_request_history (store st) + 1\<rparr>,
            hp_history := take 100
              ((historyEntry now method url outcome)
                 \<lparr>RequestHistory.ID := seq_request_history (store st) + 1\<rparr> # hp_history st)\<rparr>"
    by (simp add: record_outcome_def AddToHistory_def SaveRequestHistory_def
        insert_request_history_ok)
  have logged: "record_outcome now (Some e) method url outcome st
      = st\<lparr>stdout := stdout st @ [''Failed to save request to history: '' @ Error e]\<rparr>"
    by (simp add: record_outcome_def AddToHistory_def SaveRequestHistory_def
        insert_request_history_fault)
  have submitted: "submitRequest hio now sio method (c # cs) st
      = record_outcome now sio method (c # cs) (executeRequest hio method (c # cs)) st"
    by (simp add: submitRequest_def)
  show ?thesis
    by (simp only: fixed failure success saved logged submitted simp_thms)
qed

end
